theory Spec2Isabelle
  imports Main "HOL-Library.AList"
begin

section \<open>Python values and exceptions\<close>

text \<open>
  The extractors of \<^verbatim>\<open>gallery_dl/extractor/imagechest.py\<close> work on decoded JSON
  documents: Python dictionaries, lists, strings and numbers. A dictionary is an
  association list in insertion order (Python dictionaries keep that order, and it is
  the order in which iterating one yields its keys). A float is kept as its literal, a
  \<^verbatim>\<open>datetime\<close> as its text, and a class object by its name: the code only stores
  and passes them on.

  The values the code receives come out of a JSON decoder, so they are trees: no two
  places of a document hold the same mutable object, and the in-place updates of the
  source (\<^verbatim>\<open>img["date"] = ...\<close> on the elements of \<^verbatim>\<open>post["images"]\<close>) are
  functional updates of the tree.
\<close>

datatype pyval =
    PNone
  | PBool bool
  | PInt int
  | PFloat string
  | PStr string
  | PList "pyval list"
  | PDict "(string \<times> pyval) list"
  | PDatetime string
  | PClass string

text \<open>
  The exceptions that can travel through the module. \<^verbatim>\<open>JSONDecodeError\<close> is the error
  of \<^verbatim>\<open>json.loads\<close> and of \<^verbatim>\<open>Response.json()\<close>; it is a subclass of
  \<^verbatim>\<open>ValueError\<close>, not of \<^verbatim>\<open>TypeError\<close> or \<^verbatim>\<open>KeyError\<close>. \<^verbatim>\<open>HttpError\<close>
  stands for what the transport itself may raise. All of them are subclasses of
  \<^verbatim>\<open>Exception\<close>, so \<^verbatim>\<open>except Exception\<close> catches every value of this type.
\<close>

datatype py_error =
    NotFoundError string
  | AuthenticationError string
  | StopExtraction string
  | HttpError string
  | KeyError string
  | TypeError
  | AttributeError string
  | JSONDecodeError

text \<open>The handler \<^verbatim>\<open>except (TypeError, KeyError)\<close> of \<^verbatim>\<open>items\<close>.\<close>

fun is_TypeError_or_KeyError :: "py_error \<Rightarrow> bool" where
  "is_TypeError_or_KeyError TypeError = True"
| "is_TypeError_or_KeyError (KeyError k) = True"
| "is_TypeError_or_KeyError e = False"

definition bind_err :: "'e + 'a \<Rightarrow> ('a \<Rightarrow> 'e + 'b) \<Rightarrow> 'e + 'b" where
  "bind_err r f = (case r of Inl e \<Rightarrow> Inl e | Inr x \<Rightarrow> f x)"

fun mapM_err :: "('a \<Rightarrow> 'e + 'b) \<Rightarrow> 'a list \<Rightarrow> 'e + 'b list" where
  "mapM_err f [] = Inr []"
| "mapM_err f (x # xs) =
     (case f x of
        Inl e \<Rightarrow> Inl e
      | Inr y \<Rightarrow> (case mapM_err f xs of Inl e \<Rightarrow> Inl e | Inr ys \<Rightarrow> Inr (y # ys)))"

text \<open>
  \<^verbatim>\<open>obj[key]\<close> with a string key: a dictionary looks the key up (\<^verbatim>\<open>KeyError\<close> when it
  is missing); a list or a string wants an integer index and every other value is not
  subscriptable (\<^verbatim>\<open>TypeError\<close>).
\<close>

fun getitem :: "pyval \<Rightarrow> string \<Rightarrow> py_error + pyval" where
  "getitem (PDict d) k = (case map_of d k of None \<Rightarrow> Inl (KeyError k) | Some v \<Rightarrow> Inr v)"
| "getitem v k = Inl TypeError"

text \<open>\<^verbatim>\<open>obj[key] = value\<close> with a string key: only a dictionary supports it.\<close>

fun setitem :: "pyval \<Rightarrow> string \<Rightarrow> pyval \<Rightarrow> py_error + pyval" where
  "setitem (PDict d) k x = Inr (PDict (AList.update k x d))"
| "setitem v k x = Inl TypeError"

text \<open>
  What \<^verbatim>\<open>for x in obj\<close> and \<^verbatim>\<open>str.join(obj)\<close> iterate over: the elements of a list,
  the keys of a dictionary, the characters of a string; every other value is not
  iterable.
\<close>

fun iter :: "pyval \<Rightarrow> py_error + pyval list" where
  "iter (PList xs) = Inr xs"
| "iter (PDict d) = Inr (map (\<lambda>kv. PStr (fst kv)) d)"
| "iter (PStr s) = Inr (map (\<lambda>c. PStr [c]) s)"
| "iter v = Inl TypeError"

fun as_str :: "pyval \<Rightarrow> py_error + string" where
  "as_str (PStr s) = Inr s"
| "as_str v = Inl TypeError"

fun join_strs :: "string \<Rightarrow> string list \<Rightarrow> string" where
  "join_strs sep [] = []"
| "join_strs sep [s] = s"
| "join_strs sep (s # t # ss) = s @ sep @ join_strs sep (t # ss)"

text \<open>\<^verbatim>\<open>sep.join(obj)\<close>: every item of the iterable must be a string.\<close>

definition str_join :: "string \<Rightarrow> pyval \<Rightarrow> py_error + string" where
  "str_join sep v =
     bind_err (iter v) (\<lambda>xs. bind_err (mapM_err as_str xs) (\<lambda>ss. Inr (join_strs sep ss)))"

section \<open>Strings\<close>

fun starts_with :: "string \<Rightarrow> string \<Rightarrow> bool" where
  "starts_with [] s = True"
| "starts_with (p # ps) [] = False"
| "starts_with (p # ps) (c # cs) = (p = c \<and> starts_with ps cs)"

text \<open>\<^verbatim>\<open>txt.index(pat)\<close>: the first position where \<^verbatim>\<open>pat\<close> occurs, if there is one.\<close>

fun str_index :: "string \<Rightarrow> string \<Rightarrow> nat option" where
  "str_index pat [] = (if pat = [] then Some 0 else None)"
| "str_index pat (c # cs) =
     (if starts_with pat (c # cs) then Some 0 else map_option Suc (str_index pat cs))"

text \<open>\<^verbatim>\<open>pat in txt\<close>.\<close>

definition in_str :: "string \<Rightarrow> string \<Rightarrow> bool" where
  "in_str pat txt = (str_index pat txt \<noteq> None)"

text \<open>
  Modelled from the spec: \<^verbatim>\<open>text.extr\<close> is a function of this repository that is not
  among the sources. The spec (4.2) has it locate the value that follows the marker
  \<^verbatim>\<open>bgn\<close> and runs up to the next \<^verbatim>\<open>fin\<close>, and yield the default when the marker
  is absent; a value that is never closed counts as absent.
\<close>

definition extr :: "string \<Rightarrow> string \<Rightarrow> string \<Rightarrow> string \<Rightarrow> string" where
  "extr txt bgn fin dflt =
     (case str_index bgn txt of
        None \<Rightarrow> dflt
      | Some i \<Rightarrow>
          (let rest = drop (i + length bgn) txt
           in case str_index fin rest of None \<Rightarrow> dflt | Some j \<Rightarrow> take j rest))"

text \<open>
  \<^verbatim>\<open>text.unescape\<close> is \<^verbatim>\<open>html.unescape\<close> of the standard library: a text without
  \<^verbatim>\<open>&\<close> is returned as it is, and in any other text the character references are
  replaced. The replacement is the parameter \<^verbatim>\<open>charref\<close>.
\<close>

definition unescape :: "(string \<Rightarrow> string) \<Rightarrow> string \<Rightarrow> string" where
  "unescape charref s = (if CHR ''&'' \<in> set s then charref s else s)"

section \<open>The gallery extractor, page-scrape mode\<close>

text \<open>
  The definitions keep the names of the source, without the leading underscores:
  \<^verbatim>\<open>retrieve_page_data\<close>, \<^verbatim>\<open>metadata_api\<close>, \<^verbatim>\<open>images_api\<close>, \<^verbatim>\<open>image_list\<close>
  and \<^verbatim>\<open>call\<close>; \<^verbatim>\<open>init\<close> is \<^verbatim>\<open>__init__\<close> and \<^verbatim>\<open>init_config\<close> is \<^verbatim>\<open>_init\<close>.

  The libraries the module calls are parameters of the model:
  \<^item> \<^verbatim>\<open>json_loads\<close>: \<^verbatim>\<open>json.loads\<close>, \<^verbatim>\<open>None\<close> where it raises \<^verbatim>\<open>JSONDecodeError\<close>;
  \<^item> \<^verbatim>\<open>charref\<close>: the replacement of character references by \<^verbatim>\<open>html.unescape\<close>;
  \<^item> \<^verbatim>\<open>parse_datetime\<close>: \<^verbatim>\<open>text.parse_datetime\<close>, applied to a value and a format;
  \<^item> \<^verbatim>\<open>unquote\<close>: \<^verbatim>\<open>text.unquote\<close>.
\<close>

record library =
  json_loads :: "string \<Rightarrow> pyval option"
  charref :: "string \<Rightarrow> string"
  parse_datetime :: "pyval \<Rightarrow> string \<Rightarrow> py_error + pyval"
  unquote :: "string \<Rightarrow> string"

definition loads :: "library \<Rightarrow> string \<Rightarrow> py_error + pyval" where
  "loads L s = (case json_loads L s of None \<Rightarrow> Inl JSONDecodeError | Some v \<Rightarrow> Inr v)"

text \<open>
  The Python strings of the module that hold a double quote or are HTML markers.
\<close>

definition dq :: char where
  "dq = CHR 0x22"

definition data_page_marker :: string where
  "data_page_marker = ''data-page='' @ [dq]"

text \<open>
  An instance of \<^verbatim>\<open>ImagechestAPI\<close>: the headers it sends with every request.
\<close>

record imagechest_api =
  headers :: "(string \<times> pyval) list"

text \<open>
  An instance of \<^verbatim>\<open>ImagechestGalleryExtractor\<close>: \<^verbatim>\<open>gallery_id\<close> is set by
  \<^verbatim>\<open>__init__\<close>; \<^verbatim>\<open>api\<close> is set by \<^verbatim>\<open>_init\<close> when an access token is
  configured (\<^verbatim>\<open>None\<close>: the attribute does not exist); \<^verbatim>\<open>image_list\<close> is the
  attribute \<^verbatim>\<open>_image_list\<close>, which does not exist (\<^verbatim>\<open>None\<close>) until
  \<^verbatim>\<open>_metadata_api\<close> sets it.
\<close>

record gallery_extractor =
  gallery_id :: string
  gallery_url :: "string option"
  api :: "imagechest_api option"
  image_list :: "pyval option"

definition root :: string where
  "root = ''https://imgchest.com''"

text \<open>\<^verbatim>\<open>__init__\<close>, from the gallery id the URL pattern matched.\<close>

definition init :: "string \<Rightarrow> gallery_extractor" where
  "init gid = \<lparr>gallery_id = gid, gallery_url = Some (root @ ''/p/'' @ gid),
      api = None, image_list = None\<rparr>"

text \<open>\<^verbatim>\<open>ImagechestAPI.__init__\<close>.\<close>

definition api_init :: "string \<Rightarrow> imagechest_api" where
  "api_init access_token =
     \<lparr>headers = [(''Authorization'', PStr (''Bearer '' @ access_token))]\<rparr>"

text \<open>
  \<^verbatim>\<open>_init\<close>, from the configured access token: a token that is missing or empty
  leaves the extractor in page-scrape mode; any other token puts it in API mode, where
  \<^verbatim>\<open>metadata\<close> and \<^verbatim>\<open>images\<close> are \<^verbatim>\<open>_metadata_api\<close> and \<^verbatim>\<open>_images_api\<close>.
\<close>

definition init_config :: "string option \<Rightarrow> gallery_extractor \<Rightarrow> gallery_extractor" where
  "init_config access_token self =
     (case access_token of
        None \<Rightarrow> self
      | Some t \<Rightarrow>
          if t = [] then self else self\<lparr>api := Some (api_init t), gallery_url := None\<rparr>)"

text \<open>The pattern \<^verbatim>\<open>[A-Za-z0-9]{11}\<close> of a gallery id.\<close>

definition alnum :: "char \<Rightarrow> bool" where
  "alnum c = (let n = of_char c :: nat
     in (48 \<le> n \<and> n \<le> 57) \<or> (65 \<le> n \<and> n \<le> 90) \<or> (97 \<le> n \<and> n \<le> 122))"

definition valid_gallery_id :: "string \<Rightarrow> bool" where
  "valid_gallery_id gid = (length gid = 11 \<and> list_all alnum gid)"

definition retrieve_page_data :: "library \<Rightarrow> string \<Rightarrow> py_error + pyval" where
  "retrieve_page_data L page =
     loads L (unescape (charref L) (extr page data_page_marker [dq] ''{}''))"

text \<open>\<^verbatim>\<open>page_data["props"]["post"][attribute]\<close>.\<close>

definition post_attribute :: "pyval \<Rightarrow> string \<Rightarrow> py_error + pyval" where
  "post_attribute page_data attribute =
     bind_err (getitem page_data ''props'') (\<lambda>props.
     bind_err (getitem props ''post'') (\<lambda>post. getitem post attribute))"

definition attributes :: "string list" where
  "attributes = [''id'', ''slug'', ''status'', ''title'', ''nsfw'', ''score'', ''comments'',
     ''upvotes'', ''downvotes'', ''favorites'', ''views'', ''created'']"

text \<open>One round of the loop over the attributes: \<^verbatim>\<open>try: ... except Exception: pass\<close>.\<close>

definition copy_attribute ::
  "pyval \<Rightarrow> string \<Rightarrow> (string \<times> pyval) list \<Rightarrow> (string \<times> pyval) list" where
  "copy_attribute page_data attribute metadata =
     (case post_attribute page_data attribute of
        Inl e \<Rightarrow> metadata
      | Inr v \<Rightarrow> AList.update attribute v metadata)"

definition copy_tags :: "pyval \<Rightarrow> (string \<times> pyval) list \<Rightarrow> (string \<times> pyval) list" where
  "copy_tags page_data metadata =
     (case bind_err (post_attribute page_data ''tags'') (str_join '','') of
        Inl e \<Rightarrow> metadata
      | Inr s \<Rightarrow> AList.update ''tags'' (PStr s) metadata)"

definition metadata ::
  "library \<Rightarrow> gallery_extractor \<Rightarrow> string \<Rightarrow> py_error + (string \<times> pyval) list" where
  "metadata L self page =
     (if in_str ''Not Found'' page then Inl (NotFoundError ''gallery'')
      else bind_err (retrieve_page_data L page) (\<lambda>page_data.
        Inr (copy_tags page_data
          (fold (copy_attribute page_data) attributes
             [(''gallery_id'', PStr (gallery_id self))]))))"

text \<open>The element \<^verbatim>\<open>(file["link"], None)\<close> of the list comprehension.\<close>

definition file_link :: "pyval \<Rightarrow> py_error + pyval \<times> pyval" where
  "file_link file = bind_err (getitem file ''link'') (\<lambda>link. Inr (link, PNone))"

definition images :: "library \<Rightarrow> gallery_extractor \<Rightarrow> string \<Rightarrow> py_error + (pyval \<times> pyval) list" where
  "images L self page =
     bind_err (retrieve_page_data L page) (\<lambda>page_data.
       case bind_err (bind_err (post_attribute page_data ''files'') iter) (mapM_err file_link) of
         Inl e \<Rightarrow> Inr []
       | Inr files \<Rightarrow> Inr files)"

section \<open>The transport\<close>

text \<open>
  \<^verbatim>\<open>Extractor.request\<close>, \<^verbatim>\<open>Extractor.wait\<close> and \<^verbatim>\<open>Extractor.log\<close> belong to the
  transport, outside this module. A request is its URL and the keyword arguments the
  module passes. A response is what the module reads of it: \<^verbatim>\<open>status_code\<close> and the
  body (\<^verbatim>\<open>response.text\<close>; \<^verbatim>\<open>response.json()\<close> decodes it). The server is a
  parameter: its answer to the \<^verbatim>\<open>n\<close>-th request of a run, or the exception the
  transport raises for it.

  The world records what the module did, in order: the requests sent, the waits, the
  debug log lines, the bodies handed to the JSON decoder and the messages yielded.
\<close>

record http_request =
  url :: string
  kwargs :: "(string \<times> pyval) list"

record response =
  status_code :: int
  body :: string

datatype message = Queue pyval pyval

datatype event =
    Request http_request
  | Wait nat
  | Debug string
  | Decode string
  | Yield message

record world =
  served :: nat
  trace :: "event list"

type_synonym server = "nat \<Rightarrow> http_request \<Rightarrow> py_error + response"

definition request :: "server \<Rightarrow> http_request \<Rightarrow> world \<Rightarrow> (py_error + response) \<times> world" where
  "request srv rq w =
     (srv (served w) rq, w\<lparr>served := Suc (served w), trace := trace w @ [Request rq]\<rparr>)"

definition wait :: "nat \<Rightarrow> world \<Rightarrow> world" where
  "wait seconds w = w\<lparr>trace := trace w @ [Wait seconds]\<rparr>"

definition log_debug :: "string \<Rightarrow> world \<Rightarrow> world" where
  "log_debug msg w = w\<lparr>trace := trace w @ [Debug msg]\<rparr>"

definition response_json :: "library \<Rightarrow> response \<Rightarrow> world \<Rightarrow> (py_error + pyval) \<times> world" where
  "response_json L r w = (loads L (body r), w\<lparr>trace := trace w @ [Decode (body r)]\<rparr>)"

fun requests_of :: "event list \<Rightarrow> http_request list" where
  "requests_of [] = []"
| "requests_of (Request rq # evs) = rq # requests_of evs"
| "requests_of (ev # evs) = requests_of evs"

section \<open>The API client\<close>

definition api_root :: string where
  "api_root = ''https://api.imgchest.com''"

text \<open>
  The request of \<^verbatim>\<open>_call\<close>:
  \<^verbatim>\<open>request(url, headers=self.headers, fatal=None, allow_redirects=False)\<close>.
\<close>

definition api_request :: "imagechest_api \<Rightarrow> string \<Rightarrow> http_request" where
  "api_request self u =
     \<lparr>url = u, kwargs = [(''headers'', PDict (headers self)), (''fatal'', PNone),
        (''allow_redirects'', PBool False)]\<rparr>"

text \<open>
  The loop \<^verbatim>\<open>while True\<close> of \<^verbatim>\<open>_call\<close>. It has no bound: against a server that
  answers 429 for ever it never returns, which is the value \<^verbatim>\<open>None\<close>.
\<close>

partial_function (option) call_loop ::
  "library \<Rightarrow> server \<Rightarrow> imagechest_api \<Rightarrow> string \<Rightarrow> world
     \<Rightarrow> ((py_error + pyval) \<times> world) option" where
  "call_loop L srv self u w =
     (case request srv (api_request self u) w of
        (Inl e, w1) \<Rightarrow> Some (Inl e, w1)
      | (Inr response, w1) \<Rightarrow>
          if status_code response < 300 then
            (case response_json L response w1 of
               (r, w2) \<Rightarrow> Some (bind_err r (\<lambda>decoded. getitem decoded ''data''), w2))
          else if status_code response < 400 then
            Some (Inl (AuthenticationError ''Invalid API access token''), w1)
          else if status_code response = 429 then
            call_loop L srv self u (wait 600 w1)
          else
            Some (Inl (StopExtraction ''API request failed''), log_debug (body response) w1))"

declare call_loop.simps [code]

definition call ::
  "library \<Rightarrow> server \<Rightarrow> imagechest_api \<Rightarrow> string \<Rightarrow> world
     \<Rightarrow> ((py_error + pyval) \<times> world) option" where
  "call L srv self endpoint w = call_loop L srv self (api_root @ endpoint) w"

text \<open>
  The methods \<^verbatim>\<open>file\<close>, \<^verbatim>\<open>post\<close> and \<^verbatim>\<open>user\<close> of \<^verbatim>\<open>ImagechestAPI\<close>, one for each
  endpoint.
\<close>

definition api_file ::
  "library \<Rightarrow> server \<Rightarrow> imagechest_api \<Rightarrow> string \<Rightarrow> world
     \<Rightarrow> ((py_error + pyval) \<times> world) option" where
  "api_file L srv self file_id w = call L srv self (''/v1/file/'' @ file_id) w"

definition api_post ::
  "library \<Rightarrow> server \<Rightarrow> imagechest_api \<Rightarrow> string \<Rightarrow> world
     \<Rightarrow> ((py_error + pyval) \<times> world) option" where
  "api_post L srv self post_id w = call L srv self (''/v1/post/'' @ post_id) w"

definition api_user ::
  "library \<Rightarrow> server \<Rightarrow> imagechest_api \<Rightarrow> string \<Rightarrow> world
     \<Rightarrow> ((py_error + pyval) \<times> world) option" where
  "api_user L srv self username w = call L srv self (''/v1/user/'' @ username) w"

section \<open>The gallery extractor, API mode\<close>

definition datetime_format :: string where
  "datetime_format = ''%Y-%m-%dT%H:%M:%S.%fZ''"

text \<open>
  \<^verbatim>\<open>obj["date"] = text.parse_datetime(obj["created"], "%Y-%m-%dT%H:%M:%S.%fZ")\<close>:
  the right-hand side is evaluated first.
\<close>

definition add_date :: "library \<Rightarrow> pyval \<Rightarrow> py_error + pyval" where
  "add_date L obj =
     bind_err (getitem obj ''created'') (\<lambda>created.
     bind_err (parse_datetime L created datetime_format) (\<lambda>date.
       setitem obj ''date'' date))"

text \<open>
  \<^verbatim>\<open>for img in images: img["date"] = ...\<close>: the elements of a list are updated in
  place. The keys of a dictionary and the characters of a string are strings, which the
  loop body cannot update: such an \<^verbatim>\<open>images\<close> value passes the loop only when it is
  empty, and is left as it is.
\<close>

definition add_dates :: "library \<Rightarrow> pyval \<Rightarrow> py_error + pyval" where
  "add_dates L imgs =
     (case imgs of
        PList xs \<Rightarrow> bind_err (mapM_err (add_date L) xs) (\<lambda>ys. Inr (PList ys))
      | _ \<Rightarrow> bind_err (iter imgs) (\<lambda>xs. bind_err (mapM_err (add_date L) xs) (\<lambda>ys. Inr imgs)))"

text \<open>
  \<^verbatim>\<open>d.pop(key, None)\<close> and \<^verbatim>\<open>d.pop(key)\<close>, which the source calls on a
  dictionary only; \<^verbatim>\<open>pop\<close> returns the value removed and the dictionary left.
\<close>

fun pop_default :: "pyval \<Rightarrow> string \<Rightarrow> py_error + pyval" where
  "pop_default (PDict d) k = Inr (PDict (AList.delete k d))"
| "pop_default v k = Inl TypeError"

fun pop :: "pyval \<Rightarrow> string \<Rightarrow> py_error + pyval \<times> pyval" where
  "pop (PDict d) k =
     (case map_of d k of
        None \<Rightarrow> Inl (KeyError k)
      | Some v \<Rightarrow> Inr (v, PDict (AList.delete k d)))"
| "pop v k = Inl TypeError"

text \<open>
  The body of \<^verbatim>\<open>_metadata_api\<close> after the lookup: the post to return and the image
  list to keep.
\<close>

definition prepare_post :: "library \<Rightarrow> string \<Rightarrow> pyval \<Rightarrow> py_error + pyval \<times> pyval" where
  "prepare_post L gid post0 =
     bind_err (add_date L post0) (\<lambda>post1.
     bind_err (getitem post1 ''images'') (\<lambda>imgs.
     bind_err (add_dates L imgs) (\<lambda>imgs'.
     bind_err (setitem post1 ''images'' imgs') (\<lambda>post2.
     bind_err (setitem post2 ''gallery_id'' (PStr gid)) (\<lambda>post3.
     bind_err (pop_default post3 ''image_count'') (\<lambda>post4.
     bind_err (pop post4 ''images'') (\<lambda>(stash, post5). Inr (post5, stash))))))))"

definition metadata_api ::
  "library \<Rightarrow> server \<Rightarrow> gallery_extractor \<Rightarrow> string \<Rightarrow> world
     \<Rightarrow> ((py_error + pyval) \<times> gallery_extractor \<times> world) option" where
  "metadata_api L srv self page w =
     (case api self of
        None \<Rightarrow> Some (Inl (AttributeError ''api''), self, w)
      | Some a \<Rightarrow>
          (case api_post L srv a (gallery_id self) w of
             None \<Rightarrow> None
           | Some (Inl e, w1) \<Rightarrow> Some (Inl e, self, w1)
           | Some (Inr post0, w1) \<Rightarrow>
               (case prepare_post L (gallery_id self) post0 of
                  Inl e \<Rightarrow> Some (Inl e, self, w1)
                | Inr (post5, stash) \<Rightarrow>
                    Some (Inr post5, self\<lparr>image_list := Some stash\<rparr>, w1))))"

text \<open>The element \<^verbatim>\<open>(img["link"], img)\<close> of the list comprehension.\<close>

definition image_pair :: "pyval \<Rightarrow> py_error + pyval \<times> pyval" where
  "image_pair img = bind_err (getitem img ''link'') (\<lambda>link. Inr (link, img))"

definition images_api :: "gallery_extractor \<Rightarrow> string \<Rightarrow> py_error + (pyval \<times> pyval) list" where
  "images_api self page =
     (case image_list self of
        None \<Rightarrow> Inl (AttributeError ''_image_list'')
      | Some stash \<Rightarrow> bind_err (iter stash) (mapM_err image_pair))"

section \<open>The user extractor\<close>

text \<open>An instance of \<^verbatim>\<open>ImagechestUserExtractor\<close>, with its attribute \<^verbatim>\<open>user\<close>.\<close>

record user_extractor =
  user :: string

text \<open>
  The dictionary \<^verbatim>\<open>params\<close> of \<^verbatim>\<open>items\<close>. The loop only ever changes its entry
  \<^verbatim>\<open>page\<close>, so the loop carries the page number and the dictionary is written out
  from it.
\<close>

definition params :: "library \<Rightarrow> user_extractor \<Rightarrow> int \<Rightarrow> (string \<times> pyval) list" where
  "params L self page_no =
     [(''page'', PInt page_no), (''sort'', PStr ''new''), (''tag'', PStr ''''), (''q'', PStr ''''),
      (''username'', PStr (unquote L (user self))), (''nsfw'', PStr ''true'')]"

definition user_request :: "library \<Rightarrow> user_extractor \<Rightarrow> string \<Rightarrow> int \<Rightarrow> http_request" where
  "user_request L self u page_no = \<lparr>url = u, kwargs = [(''params'', PDict (params L self page_no))]\<rparr>"

text \<open>\<^verbatim>\<open>self.request(url, params=params).json()["data"]\<close>.\<close>

definition fetch_data ::
  "library \<Rightarrow> server \<Rightarrow> http_request \<Rightarrow> world \<Rightarrow> (py_error + pyval) \<times> world" where
  "fetch_data L srv rq w =
     (case request srv rq w of
        (Inl e, w1) \<Rightarrow> (Inl e, w1)
      | (Inr r, w1) \<Rightarrow>
          (case response_json L r w1 of
             (decoded, w2) \<Rightarrow> (bind_err decoded (\<lambda>v. getitem v ''data''), w2)))"

text \<open>
  One gallery of the inner loop: \<^verbatim>\<open>gallery["_extractor"] = ImagechestGalleryExtractor\<close>,
  then the message \<^verbatim>\<open>(Message.Queue, gallery["link"], gallery)\<close>.
\<close>

definition queue_message :: "pyval \<Rightarrow> py_error + message" where
  "queue_message gallery =
     bind_err (setitem gallery ''_extractor'' (PClass ''ImagechestGalleryExtractor'')) (\<lambda>g.
     bind_err (getitem g ''link'') (\<lambda>link. Inr (Queue link g)))"

text \<open>
  The inner loop \<^verbatim>\<open>for gallery in data\<close>, with a consumer that takes every message.
  It stands outside the \<^verbatim>\<open>try\<close>: an exception in it is not caught.
\<close>

fun yield_galleries :: "pyval list \<Rightarrow> world \<Rightarrow> (py_error + unit) \<times> world" where
  "yield_galleries [] w = (Inr (), w)"
| "yield_galleries (g # gs) w =
     (case queue_message g of
        Inl e \<Rightarrow> (Inl e, w)
      | Inr m \<Rightarrow> yield_galleries gs (w\<lparr>trace := trace w @ [Yield m]\<rparr>))"

text \<open>
  The loop \<^verbatim>\<open>while True\<close> of \<^verbatim>\<open>items\<close>: \<^verbatim>\<open>Inr ()\<close> is the generator's plain
  return, \<^verbatim>\<open>Inl e\<close> an exception that leaves it. The loop has no bound: it never
  returns (\<^verbatim>\<open>None\<close>) while every page has a \<^verbatim>\<open>data\<close> field.
\<close>

partial_function (option) items_loop ::
  "library \<Rightarrow> server \<Rightarrow> user_extractor \<Rightarrow> string \<Rightarrow> int \<Rightarrow> world
     \<Rightarrow> ((py_error + unit) \<times> world) option" where
  "items_loop L srv self u page_no w =
     (case fetch_data L srv (user_request L self u page_no) w of
        (Inl e, w1) \<Rightarrow>
          if is_TypeError_or_KeyError e then Some (Inr (), w1) else Some (Inl e, w1)
      | (Inr data, w1) \<Rightarrow>
          (case iter data of
             Inl e \<Rightarrow> Some (Inl e, w1)
           | Inr galleries \<Rightarrow>
               (case yield_galleries galleries w1 of
                  (Inl e, w2) \<Rightarrow> Some (Inl e, w2)
                | (Inr done_all, w2) \<Rightarrow> items_loop L srv self u (page_no + 1) w2)))"

declare items_loop.simps [code]

definition items ::
  "library \<Rightarrow> server \<Rightarrow> user_extractor \<Rightarrow> world \<Rightarrow> ((py_error + unit) \<times> world) option" where
  "items L srv self w = items_loop L srv self (root @ ''/api/posts'') 1 w"

text \<open>
  An answer on which every step of the loop body succeeds, as the galleries it lists:
  the body decodes, the decoded body has a \<^verbatim>\<open>data\<close> field that can be iterated, and
  every gallery in it is a dictionary with a \<^verbatim>\<open>link\<close>. The number of galleries
  does not matter.
\<close>

definition has_link :: "pyval \<Rightarrow> bool" where
  "has_link g = (case getitem g ''link'' of Inl e \<Rightarrow> False | Inr link \<Rightarrow> True)"

definition listing :: "library \<Rightarrow> py_error + response \<Rightarrow> pyval list option" where
  "listing L reply =
     (case reply of
        Inl e \<Rightarrow> None
      | Inr r \<Rightarrow>
          (case json_loads L (body r) of
             None \<Rightarrow> None
           | Some v \<Rightarrow>
               (case getitem v ''data'' of
                  Inl e \<Rightarrow> None
                | Inr data \<Rightarrow>
                    (case iter data of
                       Inl e \<Rightarrow> None
                     | Inr galleries \<Rightarrow>
                         if list_all has_link galleries then Some galleries else None))))"

section \<open>A sample environment\<close>

text \<open>
  The theorems below hold for every library and every server. Their instances at
  concrete inputs run in this environment. \<^verbatim>\<open>sample_documents\<close> lists what
  \<^verbatim>\<open>json.loads\<close> returns for the JSON documents the instances use; the other texts they
  hand to the decoder (\<^verbatim>\<open>x\<close>, \<^verbatim>\<open><html>\<close>) are no JSON documents, and
  \<^verbatim>\<open>json.loads\<close> raises on them. \<^verbatim>\<open>unquot\<close> replaces the character reference
  \<^verbatim>\<open>&quot;\<close>, the only one in the sample pages.
\<close>

fun unquot :: "string \<Rightarrow> string" where
  "unquot [] = []"
| "unquot (c # cs) =
     (if starts_with ''&quot;'' (c # cs) then dq # unquot (drop 5 cs) else c # unquot cs)"

definition doc_tags :: string where
  \<open>doc_tags = ''{"props":{"post":{"id":"abcdefghijk","tags":["a","b","c"]}}}''\<close>

definition doc_untagged :: string where
  \<open>doc_untagged = ''{"props":{"post":{"id":"abcdefghijk"}}}''\<close>

definition doc_post :: string where
  \<open>doc_post = ''{"data":{"created":"c0","image_count":2,"images":[{"link":"u1","created":"c1"},{"link":"u2","created":"c2"}]}}''\<close>

definition doc_listing :: string where
  \<open>doc_listing = ''{"data":[{"link":"https://imgchest.com/p/abcdefghijk"}]}''\<close>

definition sample_documents :: "(string \<times> pyval) list" where
  "sample_documents =
     [(''{}'', PDict []),
      (''[]'', PList []),
      (doc_tags, PDict [(''props'', PDict [(''post'', PDict [(''id'', PStr ''abcdefghijk''),
         (''tags'', PList [PStr ''a'', PStr ''b'', PStr ''c''])])])]),
      (doc_untagged, PDict [(''props'', PDict [(''post'', PDict [(''id'', PStr ''abcdefghijk'')])])]),
      (doc_post, PDict [(''data'', PDict [(''created'', PStr ''c0''), (''image_count'', PInt 2),
         (''images'', PList [PDict [(''link'', PStr ''u1''), (''created'', PStr ''c1'')],
                             PDict [(''link'', PStr ''u2''), (''created'', PStr ''c2'')]])])]),
      (doc_listing, PDict [(''data'', PList [PDict [(''link'',
         PStr ''https://imgchest.com/p/abcdefghijk'')]])])]"

definition sample_library :: library where
  "sample_library =
     \<lparr>json_loads = map_of sample_documents,
      charref = unquot,
      parse_datetime = (\<lambda>v fmt. Inr (case v of PStr s \<Rightarrow> PDatetime s | _ \<Rightarrow> PNone)),
      unquote = (\<lambda>s. s)\<rparr>"

definition page_not_found :: string where
  \<open>page_not_found = ''<title>Not Found</title><div data-page="{}"></div>''\<close>

definition page_not_found_broken :: string where
  \<open>page_not_found_broken = ''<title>Not Found</title><div data-page="x"></div>''\<close>

definition page_plain :: string where
  \<open>page_plain = ''<div id="app"></div>''\<close>

definition page_empty :: string where
  \<open>page_empty = ''<div data-page="{}"></div>''\<close>

definition page_broken :: string where
  \<open>page_broken = ''<div data-page="x"></div>''\<close>

definition page_two_markers :: string where
  \<open>page_two_markers = ''<div data-page="x"></div><div data-page="{}"></div>''\<close>

definition page_tags :: string where
  \<open>page_tags = ''<div data-page="{&quot;props&quot;:{&quot;post&quot;:{&quot;id&quot;:&quot;abcdefghijk&quot;,&quot;tags&quot;:[&quot;a&quot;,&quot;b&quot;,&quot;c&quot;]}}}"></div>''\<close>

definition page_untagged :: string where
  \<open>page_untagged = ''<div data-page="{&quot;props&quot;:{&quot;post&quot;:{&quot;id&quot;:&quot;abcdefghijk&quot;}}}"></div>''\<close>

text \<open>
  A server that answers 429 to the first two requests of a run and \<^verbatim>\<open>r\<close> from then
  on, and a fresh world.
\<close>

definition busy_then :: "response \<Rightarrow> server" where
  "busy_then r n rq =
     (if n < 2 then Inr \<lparr>status_code = 429, body = ''Too Many Requests''\<rparr> else Inr r)"

definition world0 :: world where
  "world0 = \<lparr>served = 0, trace = []\<rparr>"

text \<open>A server that gives the same answer to every request.\<close>

definition always :: "response \<Rightarrow> server" where
  "always r n rq = Inr r"

text \<open>An extractor in API mode.\<close>

definition sample_extractor :: gallery_extractor where
  "sample_extractor = init_config (Some ''token'') (init ''abcdefghijk'')"

text \<open>
  A server for the user listing: page 1 is \<^verbatim>\<open>doc_listing\<close>, every other page is
  answered with \<^verbatim>\<open>r\<close>.
\<close>

definition page_of :: "http_request \<Rightarrow> py_error + pyval" where
  "page_of rq =
     (case map_of (kwargs rq) ''params'' of
        None \<Rightarrow> Inl (KeyError ''params'')
      | Some p \<Rightarrow> getitem p ''page'')"

definition one_page_then :: "response \<Rightarrow> server" where
  "one_page_then r n rq =
     (if page_of rq = Inr (PInt 1) then Inr \<lparr>status_code = 200, body = doc_listing\<rparr> else Inr r)"

definition sample_user :: user_extractor where
  "sample_user = \<lparr>user = ''USER''\<rparr>"

section \<open>Substrings\<close>

lemma starts_with_iff: "starts_with p s \<longleftrightarrow> (\<exists>suf. s = p @ suf)"
proof (induction p s rule: starts_with.induct)
  case (1 s)
  then show ?case by simp
next
  case (2 p ps)
  then show ?case by simp
next
  case (3 p ps c cs)
  then show ?case by auto
qed

lemma str_index_Some_iff_sub:
  "(str_index pat s \<noteq> None) \<longleftrightarrow> (\<exists>pre suf. s = pre @ pat @ suf)"
proof (induction s)
  case Nil
  then show ?case by auto
next
  case (Cons c cs)
  show ?case
  proof (cases "starts_with pat (c # cs)")
    case True
    then obtain suf where "c # cs = pat @ suf"
      using starts_with_iff by blast
    then have "c # cs = [] @ pat @ suf" by simp
    then have "\<exists>pre suf. c # cs = pre @ pat @ suf" by blast
    with True show ?thesis by simp
  next
    case False
    have "(\<exists>pre suf. c # cs = pre @ pat @ suf) \<longleftrightarrow> (\<exists>pre suf. cs = pre @ pat @ suf)"
    proof
      assume "\<exists>pre suf. c # cs = pre @ pat @ suf"
      then obtain pre suf where e: "c # cs = pre @ pat @ suf" by blast
      show "\<exists>pre suf. cs = pre @ pat @ suf"
      proof (cases pre)
        case Nil
        with e have "starts_with pat (c # cs)" using starts_with_iff by auto
        with False show ?thesis by simp
      next
        case (Cons a pre')
        with e have "cs = pre' @ pat @ suf" by simp
        then show ?thesis by blast
      qed
    next
      assume "\<exists>pre suf. cs = pre @ pat @ suf"
      then obtain pre suf where "cs = pre @ pat @ suf" by blast
      then have "c # cs = (c # pre) @ pat @ suf" by simp
      then show "\<exists>pre suf. c # cs = pre @ pat @ suf" by blast
    qed
    with False Cons show ?thesis by simp
  qed
qed

lemma in_str_iff: "in_str pat txt \<longleftrightarrow> (\<exists>pre suf. txt = pre @ pat @ suf)"
  unfolding in_str_def by (rule str_index_Some_iff_sub)


section \<open>Errors and dictionaries\<close>

lemma bind_err_simps [simp]:
  "bind_err (Inl e) f = Inl e"
  "bind_err (Inr x) f = f x"
  by (simp_all add: bind_err_def)

lemma mapM_err_as_str: "mapM_err as_str (map PStr ts) = Inr ts"
  by (induction ts) auto

lemma str_join_list: "str_join sep (PList (map PStr ts)) = Inr (join_strs sep ts)"
  by (simp add: str_join_def mapM_err_as_str)

section \<open>Page-scrape mode\<close>

lemma map_of_copy_attribute:
  "k \<noteq> a \<Longrightarrow> map_of (copy_attribute pd a m) k = map_of m k"
  by (simp add: copy_attribute_def update_conv' split: sum.splits)

lemma map_of_fold_copy_attribute:
  "k \<notin> set as \<Longrightarrow> map_of (fold (copy_attribute pd) as m) k = map_of m k"
  by (induction as arbitrary: m) (auto simp: map_of_copy_attribute)

lemma tags_not_attribute: "''tags'' \<notin> set attributes"
  by (simp add: attributes_def)

lemma metadata_decoded:
  "\<not> in_str ''Not Found'' page \<Longrightarrow> retrieve_page_data L page = Inr pd \<Longrightarrow>
   metadata L self page =
     Inr (copy_tags pd (fold (copy_attribute pd) attributes [(''gallery_id'', PStr (gallery_id self))]))"
  by (simp add: metadata_def)

lemma metadata_error:
  "\<not> in_str ''Not Found'' page \<Longrightarrow> retrieve_page_data L page = Inl e \<Longrightarrow>
   metadata L self page = Inl e"
  by (simp add: metadata_def)


lemma extr_absent: "str_index bgn s = None \<Longrightarrow> extr s bgn fin dflt = dflt"
  by (simp add: extr_def)

lemma extr_empty_object:
  assumes "page = pre @ data_page_marker @ ''{}'' @ [dq] @ suf"
    and "str_index data_page_marker page = Some (length pre)"
  shows "extr page data_page_marker [dq] dflt = ''{}''"
proof -
  have rest: "drop (length pre + length data_page_marker) page = ''{}'' @ [dq] @ suf"
    using assms(1) by simp
  have "str_index [dq] (''{}'' @ [dq] @ suf) = Some 2"
    by (simp add: dq_def)
  with rest assms(2) show ?thesis
    by (simp add: extr_def)
qed

lemma retrieve_empty_object:
  assumes "extr page data_page_marker [dq] ''{}'' = ''{}''" and "json_loads L ''{}'' = Some (PDict [])"
  shows "retrieve_page_data L page = Inr (PDict [])"
  using assms by (simp add: retrieve_page_data_def loads_def unescape_def)

lemma post_attribute_empty: "post_attribute (PDict []) a = Inl (KeyError ''props'')"
  by (simp add: post_attribute_def)

lemma fold_copy_attribute_empty: "fold (copy_attribute (PDict [])) as m = m"
  by (induction as) (simp_all add: copy_attribute_def post_attribute_empty)

lemma metadata_empty_object:
  assumes "\<not> in_str ''Not Found'' page" and "retrieve_page_data L page = Inr (PDict [])"
  shows "metadata L self page = Inr [(''gallery_id'', PStr (gallery_id self))]"
  using assms
  by (simp add: metadata_def fold_copy_attribute_empty copy_tags_def post_attribute_empty)

lemma images_decoded:
  "retrieve_page_data L page = Inr pd \<Longrightarrow>
   images L self page =
     (case bind_err (bind_err (post_attribute pd ''files'') iter) (mapM_err file_link) of
        Inl e \<Rightarrow> Inr [] | Inr files \<Rightarrow> Inr files)"
  by (simp add: images_def)

lemma images_error: "retrieve_page_data L page = Inl e \<Longrightarrow> images L self page = Inl e"
  by (simp add: images_def)

lemma images_empty_object:
  "retrieve_page_data L page = Inr (PDict []) \<Longrightarrow> images L self page = Inr []"
  by (simp add: images_decoded post_attribute_empty)

section \<open>The API client\<close>

lemma call_loop_429:
  assumes "srv (served w) (api_request self u) = Inr r" and "status_code r = 429"
  shows "call_loop L srv self u w =
     call_loop L srv self u
       (w\<lparr>served := Suc (served w), trace := trace w @ [Request (api_request self u), Wait 600]\<rparr>)"
  using assms by (subst call_loop.simps) (simp add: request_def wait_def)

lemma call_loop_429s:
  assumes "\<forall>j<k. \<exists>r. srv (served w + j) (api_request self u) = Inr r \<and> status_code r = 429"
  shows "call_loop L srv self u w =
     call_loop L srv self u
       (w\<lparr>served := served w + k,
          trace := trace w @ concat (replicate k [Request (api_request self u), Wait 600])\<rparr>)"
  using assms
proof (induction k arbitrary: w)
  case 0
  then show ?case by simp
next
  case (Suc k)
  let ?w' = "w\<lparr>served := Suc (served w), trace := trace w @ [Request (api_request self u), Wait 600]\<rparr>"
  from Suc.prems obtain r where r: "srv (served w) (api_request self u) = Inr r" "status_code r = 429"
    by force
  have step: "call_loop L srv self u w = call_loop L srv self u ?w'"
    using r by (rule call_loop_429)
  have "\<forall>j<k. \<exists>r. srv (served ?w' + j) (api_request self u) = Inr r \<and> status_code r = 429"
  proof (intro allI impI)
    fix j assume "j < k"
    then have "Suc j < Suc k" by simp
    with Suc.prems have "\<exists>r. srv (served w + Suc j) (api_request self u) = Inr r \<and> status_code r = 429"
      by blast
    then show "\<exists>r. srv (served ?w' + j) (api_request self u) = Inr r \<and> status_code r = 429"
      by simp
  qed
  from Suc.IH [OF this] step show ?case by simp
qed

lemma call_loop_success:
  assumes "srv (served w) (api_request self u) = Inr r" and "status_code r < 300"
  shows "call_loop L srv self u w =
     Some (bind_err (loads L (body r)) (\<lambda>decoded. getitem decoded ''data''),
       w\<lparr>served := Suc (served w),
         trace := trace w @ [Request (api_request self u), Decode (body r)]\<rparr>)"
  using assms by (subst call_loop.simps) (simp add: request_def response_json_def)

lemma call_loop_redirect:
  assumes "srv (served w) (api_request self u) = Inr r"
    and "300 \<le> status_code r" and "status_code r < 400"
  shows "call_loop L srv self u w =
     Some (Inl (AuthenticationError ''Invalid API access token''),
       w\<lparr>served := Suc (served w), trace := trace w @ [Request (api_request self u)]\<rparr>)"
  using assms by (subst call_loop.simps) (simp add: request_def)

lemma call_loop_failure:
  assumes "srv (served w) (api_request self u) = Inr r"
    and "400 \<le> status_code r" and "status_code r \<noteq> 429"
  shows "call_loop L srv self u w =
     Some (Inl (StopExtraction ''API request failed''),
       w\<lparr>served := Suc (served w),
         trace := trace w @ [Request (api_request self u), Debug (body r)]\<rparr>)"
  using assms by (subst call_loop.simps) (simp add: request_def log_debug_def)

text \<open>
  The retries have no bound: against a server that answers 429 to every request the
  loop never returns.
\<close>

lemma call_loop_Some_not_always_429:
  assumes "call_loop L srv self u w = Some y"
  shows "\<not> (\<forall>j. \<exists>r. srv (served w + j) (api_request self u) = Inr r \<and> status_code r = 429)"
proof (rule call_loop.raw_induct [where P = "\<lambda>L srv self u w y.
    \<not> (\<forall>j. \<exists>r. srv (served w + j) (api_request self u) = Inr r \<and> status_code r = 429)",
    OF _ assms])
  fix loop :: "library \<Rightarrow> server \<Rightarrow> imagechest_api \<Rightarrow> string \<Rightarrow> world
      \<Rightarrow> ((py_error + pyval) \<times> world) option"
    and K :: library and s :: server and a :: imagechest_api and v :: string and x :: world
    and z :: "(py_error + pyval) \<times> world"
  assume IH: "\<And>K s a v x z. loop K s a v x = Some z \<Longrightarrow>
    \<not> (\<forall>j. \<exists>r. s (served x + j) (api_request a v) = Inr r \<and> status_code r = 429)"
  assume unfolded: "(case request s (api_request a v) x of
        (Inl e, w1) \<Rightarrow> Some (Inl e, w1)
      | (Inr response, w1) \<Rightarrow>
          if status_code response < 300 then
            (case response_json K response w1 of
               (r, w2) \<Rightarrow> Some (bind_err r (\<lambda>decoded. getitem decoded ''data''), w2))
          else if status_code response < 400 then
            Some (Inl (AuthenticationError ''Invalid API access token''), w1)
          else if status_code response = 429 then
            loop K s a v (wait 600 w1)
          else
            Some (Inl (StopExtraction ''API request failed''), log_debug (body response) w1))
      = Some z"
  show "\<not> (\<forall>j. \<exists>r. s (served x + j) (api_request a v) = Inr r \<and> status_code r = 429)"
  proof
    assume busy: "\<forall>j. \<exists>r. s (served x + j) (api_request a v) = Inr r \<and> status_code r = 429"
    then have "\<exists>r. s (served x + 0) (api_request a v) = Inr r \<and> status_code r = 429"
      by (rule spec)
    then obtain r where r: "s (served x) (api_request a v) = Inr r" "status_code r = 429"
      by auto
    let ?x = "wait 600 (x\<lparr>served := Suc (served x), trace := trace x @ [Request (api_request a v)]\<rparr>)"
    from unfolded r have "loop K s a v ?x = Some z"
      by (simp add: request_def)
    then have "\<not> (\<forall>j. \<exists>r. s (served ?x + j) (api_request a v) = Inr r \<and> status_code r = 429)"
      by (rule IH)
    moreover have "\<forall>j. \<exists>r. s (served ?x + j) (api_request a v) = Inr r \<and> status_code r = 429"
    proof
      fix j
      from busy have "\<exists>r. s (served x + Suc j) (api_request a v) = Inr r \<and> status_code r = 429"
        by (rule spec)
      then show "\<exists>r. s (served ?x + j) (api_request a v) = Inr r \<and> status_code r = 429"
        by (simp add: wait_def)
    qed
    ultimately show False by blast
  qed
qed

lemma call_loop_429_for_ever:
  assumes "\<forall>j. \<exists>r. srv (served w + j) (api_request self u) = Inr r \<and> status_code r = 429"
  shows "call_loop L srv self u w = None"
proof (cases "call_loop L srv self u w")
  case None
  then show ?thesis .
next
  case (Some y)
  with assms call_loop_Some_not_always_429 show ?thesis by blast
qed

section \<open>API mode: what a successful lookup leaves\<close>

lemma getitem_Inr_iff: "getitem v k = Inr x \<longleftrightarrow> (\<exists>d. v = PDict d \<and> map_of d k = Some x)"
  by (cases v) (auto split: option.splits)

lemma add_date_Inr:
  assumes "add_date L obj = Inr obj'"
  obtains d created date where "obj = PDict d" "map_of d ''created'' = Some created"
    "parse_datetime L created datetime_format = Inr date"
    "obj' = PDict (AList.update ''date'' date d)"
proof -
  from assms obtain created where c: "getitem obj ''created'' = Inr created"
    by (cases "getitem obj ''created''") (simp_all add: add_date_def)
  with assms obtain date where dt: "parse_datetime L created datetime_format = Inr date"
    by (cases "parse_datetime L created datetime_format") (simp_all add: add_date_def)
  from c obtain d where d: "obj = PDict d" "map_of d ''created'' = Some created"
    using getitem_Inr_iff by blast
  from assms c dt d have "obj' = PDict (AList.update ''date'' date d)"
    by (simp add: add_date_def)
  with d dt show ?thesis
    using that by blast
qed

lemma add_date_link:
  assumes "add_date L obj = Inr obj'"
  shows "getitem obj' ''link'' = getitem obj ''link''"
  using assms by (elim add_date_Inr) (simp add: update_conv')

lemma mapM_err_links:
  "mapM_err (add_date L) xs = Inr ys \<Longrightarrow>
   map (\<lambda>img. getitem img ''link'') ys = map (\<lambda>img. getitem img ''link'') xs"
proof (induction xs arbitrary: ys)
  case Nil
  then show ?case by simp
next
  case (Cons x xs)
  from Cons.prems obtain y where y: "add_date L x = Inr y"
    by (cases "add_date L x") simp_all
  with Cons.prems obtain ys' where ys': "mapM_err (add_date L) xs = Inr ys'"
    by (cases "mapM_err (add_date L) xs") simp_all
  with Cons.prems y have "ys = y # ys'" by simp
  with Cons.IH [OF ys'] add_date_link [OF y] show ?case by simp
qed

lemma mapM_err_image_pair:
  "\<forall>img\<in>set imgs. \<exists>link. getitem img ''link'' = Inr link \<Longrightarrow>
   \<exists>prs. mapM_err image_pair imgs = Inr prs \<and> map snd prs = imgs
     \<and> (\<forall>p\<in>set prs. getitem (snd p) ''link'' = Inr (fst p))"
proof (induction imgs)
  case Nil
  then show ?case by simp
next
  case (Cons img imgs)
  then obtain link where l: "getitem img ''link'' = Inr link" by auto
  from Cons obtain prs where prs: "mapM_err image_pair imgs = Inr prs" "map snd prs = imgs"
    "\<forall>p\<in>set prs. getitem (snd p) ''link'' = Inr (fst p)"
    by auto
  from l prs have "mapM_err image_pair (img # imgs) = Inr ((link, img) # prs)"
    by (simp add: image_pair_def)
  with l prs show ?case by simp
qed

lemma prepare_post_Inr:
  assumes "prepare_post L gid post0 = Inr (m, stash)"
  obtains d date imgs where "post0 = PDict d" "map_of d ''images'' = Some imgs"
    "add_dates L imgs = Inr stash"
    "m = PDict (AList.delete ''images'' (AList.delete ''image_count''
           (AList.update ''gallery_id'' (PStr gid)
             (AList.update ''images'' stash (AList.update ''date'' date d)))))"
proof -
  from assms obtain post1 where p1: "add_date L post0 = Inr post1"
    by (cases "add_date L post0") (simp_all add: prepare_post_def)
  then obtain d created date where d: "post0 = PDict d"
    "post1 = PDict (AList.update ''date'' date d)"
    by (elim add_date_Inr)
  from assms p1 obtain imgs where i: "getitem post1 ''images'' = Inr imgs"
    by (cases "getitem post1 ''images''") (simp_all add: prepare_post_def)
  with d have i0: "map_of d ''images'' = Some imgs"
    by (simp add: update_conv' split: option.splits)
  from assms p1 i obtain imgs' where i': "add_dates L imgs = Inr imgs'"
    by (cases "add_dates L imgs") (simp_all add: prepare_post_def)
  from assms p1 i i' d have ms: "m = PDict (AList.delete ''images'' (AList.delete ''image_count''
           (AList.update ''gallery_id'' (PStr gid)
             (AList.update ''images'' imgs' (AList.update ''date'' date d)))))"
    and st: "stash = imgs'"
    by (auto simp: prepare_post_def update_conv' delete_conv')
  from i' st have i'': "add_dates L imgs = Inr stash"
    by simp
  from ms st have ms': "m = PDict (AList.delete ''images'' (AList.delete ''image_count''
           (AList.update ''gallery_id'' (PStr gid)
             (AList.update ''images'' stash (AList.update ''date'' date d)))))"
    by simp
  show ?thesis
    by (rule that [OF d(1) i0 i'' ms'])
qed

lemma metadata_api_Inr:
  assumes "metadata_api L srv self page w = Some (Inr m, self', w')"
  obtains a post0 stash where "api self = Some a"
    "api_post L srv a (gallery_id self) w = Some (Inr post0, w')"
    "prepare_post L (gallery_id self) post0 = Inr (m, stash)"
    "self' = self\<lparr>image_list := Some stash\<rparr>"
  using assms unfolding metadata_api_def
  by (auto split: option.splits sum.splits prod.splits)

lemma metadata_api_Inl:
  assumes "metadata_api L srv self page w = Some (Inl e, self', w')"
  shows "self' = self"
  using assms unfolding metadata_api_def
  by (auto split: option.splits sum.splits prod.splits)

section \<open>The user extractor: the loop over the pages\<close>

lemma requests_of_append: "requests_of (xs @ ys) = requests_of xs @ requests_of ys"
  by (induction xs rule: requests_of.induct) simp_all

lemma getitem_Inl: "getitem v k = Inl e \<Longrightarrow> is_TypeError_or_KeyError e"
  by (cases v) (auto split: option.splits)

lemma queue_message_has_link: "has_link g \<Longrightarrow> \<exists>m. queue_message g = Inr m"
  by (cases g) (auto simp: has_link_def queue_message_def update_conv' split: option.splits)

lemma yield_galleries_all:
  "list_all has_link gs \<Longrightarrow>
   \<exists>tr. yield_galleries gs w = (Inr (), w\<lparr>trace := trace w @ tr\<rparr>) \<and> requests_of tr = []"
proof (induction gs arbitrary: w)
  case Nil
  have "yield_galleries [] w = (Inr (), w\<lparr>trace := trace w @ []\<rparr>) \<and> requests_of [] = []"
    by simp
  then show ?case by blast
next
  case (Cons g gs)
  then obtain m where m: "queue_message g = Inr m"
    using queue_message_has_link by auto
  let ?w = "w\<lparr>trace := trace w @ [Yield m]\<rparr>"
  from Cons.prems have "list_all has_link gs"
    by simp
  from Cons.IH [OF this, of ?w]
  obtain tr where tr: "yield_galleries gs ?w = (Inr (), ?w\<lparr>trace := trace ?w @ tr\<rparr>)"
    "requests_of tr = []"
    by blast
  have "yield_galleries (g # gs) w = (Inr (), w\<lparr>trace := trace w @ (Yield m # tr)\<rparr>)
      \<and> requests_of (Yield m # tr) = []"
    using m tr by simp
  then show ?case by blast
qed

lemma items_loop_step:
  assumes "listing L (srv (served w) (user_request L self u p)) = Some gs"
  shows "\<exists>tr. items_loop L srv self u p w =
           items_loop L srv self u (p + 1) (w\<lparr>served := Suc (served w), trace := trace w @ tr\<rparr>)
         \<and> requests_of tr = [user_request L self u p]"
proof -
  let ?rq = "user_request L self u p"
  from assms obtain r v data where r: "srv (served w) ?rq = Inr r"
    "json_loads L (body r) = Some v" "getitem v ''data'' = Inr data" "iter data = Inr gs"
    "list_all has_link gs"
    by (auto simp: listing_def split: sum.splits option.splits if_splits)
  let ?w1 = "w\<lparr>served := Suc (served w), trace := trace w @ [Request ?rq, Decode (body r)]\<rparr>"
  have f: "fetch_data L srv ?rq w = (Inr data, ?w1)"
    using r by (simp add: fetch_data_def request_def response_json_def loads_def)
  from r(5) obtain tr where tr: "yield_galleries gs ?w1 = (Inr (), ?w1\<lparr>trace := trace ?w1 @ tr\<rparr>)"
    "requests_of tr = []"
    using yield_galleries_all by blast
  have "items_loop L srv self u p w =
      items_loop L srv self u (p + 1) (?w1\<lparr>trace := trace ?w1 @ tr\<rparr>)"
    using f r(4) tr(1) by (subst items_loop.simps) simp
  then have "items_loop L srv self u p w =
      items_loop L srv self u (p + 1)
        (w\<lparr>served := Suc (served w), trace := trace w @ ([Request ?rq, Decode (body r)] @ tr)\<rparr>)
      \<and> requests_of ([Request ?rq, Decode (body r)] @ tr) = [?rq]"
    using tr(2) by simp
  then show ?thesis by blast
qed

lemma items_loop_steps:
  assumes "\<forall>j<k. listing L (srv (served w + j) (user_request L self u (p + int j))) \<noteq> None"
  shows "\<exists>tr. items_loop L srv self u p w =
           items_loop L srv self u (p + int k) (w\<lparr>served := served w + k, trace := trace w @ tr\<rparr>)
         \<and> requests_of tr = map (\<lambda>j. user_request L self u (p + int j)) [0..<k]"
  using assms
proof (induction k arbitrary: p w)
  case 0
  have "items_loop L srv self u p w =
      items_loop L srv self u (p + int 0) (w\<lparr>served := served w + 0, trace := trace w @ []\<rparr>)
    \<and> requests_of [] = map (\<lambda>j. user_request L self u (p + int j)) [0..<0]"
    by simp
  then show ?case by blast
next
  case (Suc k)
  from Suc.prems have "listing L (srv (served w + 0) (user_request L self u (p + int 0))) \<noteq> None"
    by blast
  then obtain gs where "listing L (srv (served w) (user_request L self u p)) = Some gs"
    by auto
  then obtain tr1 where s1: "items_loop L srv self u p w =
      items_loop L srv self u (p + 1) (w\<lparr>served := Suc (served w), trace := trace w @ tr1\<rparr>)"
    "requests_of tr1 = [user_request L self u p]"
    using items_loop_step by blast
  let ?w1 = "w\<lparr>served := Suc (served w), trace := trace w @ tr1\<rparr>"
  have "\<forall>j<k. listing L (srv (served ?w1 + j) (user_request L self u (p + 1 + int j))) \<noteq> None"
  proof (intro allI impI)
    fix j assume "j < k"
    then have "listing L (srv (served w + Suc j) (user_request L self u (p + int (Suc j)))) \<noteq> None"
      using Suc.prems by (meson Suc_less_eq)
    then show "listing L (srv (served ?w1 + j) (user_request L self u (p + 1 + int j))) \<noteq> None"
      by (simp add: add.assoc)
  qed
  from Suc.IH [OF this] obtain tr2 where s2: "items_loop L srv self u (p + 1) ?w1 =
      items_loop L srv self u (p + 1 + int k) (?w1\<lparr>served := served ?w1 + k, trace := trace ?w1 @ tr2\<rparr>)"
    "requests_of tr2 = map (\<lambda>j. user_request L self u (p + 1 + int j)) [0..<k]"
    by blast
  have m: "map (\<lambda>j. user_request L self u (p + int j)) [0..<Suc k] =
      user_request L self u p # map (\<lambda>j. user_request L self u (p + 1 + int j)) [0..<k]"
    by (simp add: map_upt_Suc add.commute add.left_commute del: upt_Suc)
  have "items_loop L srv self u p w =
      items_loop L srv self u (p + int (Suc k))
        (w\<lparr>served := served w + Suc k, trace := trace w @ (tr1 @ tr2)\<rparr>)
    \<and> requests_of (tr1 @ tr2) = map (\<lambda>j. user_request L self u (p + int j)) [0..<Suc k]"
    using s1 s2 m by (simp add: requests_of_append add.commute add.left_commute)
  then show ?case by blast
qed

lemma items_loop_stop:
  assumes "srv (served w) (user_request L self u p) = Inr r"
    and "json_loads L (body r) = Some v" and "getitem v ''data'' = Inl e"
  shows "items_loop L srv self u p w =
     Some (Inr (), w\<lparr>served := Suc (served w),
       trace := trace w @ [Request (user_request L self u p), Decode (body r)]\<rparr>)"
proof -
  have "fetch_data L srv (user_request L self u p) w =
      (Inl e, w\<lparr>served := Suc (served w),
         trace := trace w @ [Request (user_request L self u p), Decode (body r)]\<rparr>)"
    using assms by (simp add: fetch_data_def request_def response_json_def loads_def)
  then show ?thesis
    using getitem_Inl [OF assms(3)] by (subst items_loop.simps) simp
qed

lemma items_loop_undecodable:
  assumes "srv (served w) (user_request L self u p) = Inr r"
    and "json_loads L (body r) = None"
  shows "items_loop L srv self u p w =
     Some (Inl JSONDecodeError, w\<lparr>served := Suc (served w),
       trace := trace w @ [Request (user_request L self u p), Decode (body r)]\<rparr>)"
proof -
  have "fetch_data L srv (user_request L self u p) w =
      (Inl JSONDecodeError, w\<lparr>served := Suc (served w),
         trace := trace w @ [Request (user_request L self u p), Decode (body r)]\<rparr>)"
    using assms by (simp add: fetch_data_def request_def response_json_def loads_def)
  then show ?thesis
    by (subst items_loop.simps) simp
qed

section \<open>The claims\<close>

text \<open>
  Claim C1. Take a call of \<^verbatim>\<open>_call\<close> to which the server answers 429 \<^verbatim>\<open>k\<close> times
  (for any \<^verbatim>\<open>k\<close>) and then with a status below 300. The call returns. What it did is
  the trace: for each 429 one request and one wait of 600 seconds, every request the
  same (the same URL and keyword arguments, the headers among them), then the last
  request and the decoding of its body; no body of a 429 response is decoded. What it
  returns is \<^verbatim>\<open>["data"]\<close> of the decoded last body. (While the server answers 429 the
  call goes on, see \<^verbatim>\<open>call_loop_429_for_ever\<close>.)
\<close>

theorem call_retries_429:
  assumes "\<forall>j<k. \<exists>r. srv (served w + j) (api_request self (api_root @ endpoint)) = Inr r
              \<and> status_code r = 429"
    and "srv (served w + k) (api_request self (api_root @ endpoint)) = Inr r"
    and "status_code r < 300"
  shows "call L srv self endpoint w =
     Some (bind_err (loads L (body r)) (\<lambda>decoded. getitem decoded ''data''),
       w\<lparr>served := served w + k + 1,
         trace := trace w
           @ concat (replicate k [Request (api_request self (api_root @ endpoint)), Wait 600])
           @ [Request (api_request self (api_root @ endpoint)), Decode (body r)]\<rparr>)"
proof -
  let ?u = "api_root @ endpoint"
  let ?w = "w\<lparr>served := served w + k,
          trace := trace w @ concat (replicate k [Request (api_request self ?u), Wait 600])\<rparr>"
  have "call L srv self endpoint w = call_loop L srv self ?u ?w"
    unfolding call_def using assms(1) by (rule call_loop_429s)
  moreover have "srv (served ?w) (api_request self ?u) = Inr r"
    using assms(2) by simp
  ultimately show ?thesis
    using call_loop_success [of srv ?w self ?u r L] assms(3) by simp
qed

text \<open>Two answers 429, then the post: three equal requests and two waits.\<close>

theorem call_retries_429_witness:
  "call sample_library (busy_then \<lparr>status_code = 200, body = doc_post\<rparr>) (api_init ''token'')
      ''/v1/post/abcdefghijk'' world0 =
   Some (Inr (PDict [(''created'', PStr ''c0''), (''image_count'', PInt 2),
         (''images'', PList [PDict [(''link'', PStr ''u1''), (''created'', PStr ''c1'')],
                             PDict [(''link'', PStr ''u2''), (''created'', PStr ''c2'')]])]),
     \<lparr>served = 3, trace =
        [Request (api_request (api_init ''token'') ''https://api.imgchest.com/v1/post/abcdefghijk''),
         Wait 600,
         Request (api_request (api_init ''token'') ''https://api.imgchest.com/v1/post/abcdefghijk''),
         Wait 600,
         Request (api_request (api_init ''token'') ''https://api.imgchest.com/v1/post/abcdefghijk''),
         Decode doc_post]\<rparr>)"
proof -
  let ?srv = "busy_then \<lparr>status_code = 200, body = doc_post\<rparr>"
  let ?rq = "api_request (api_init ''token'') (api_root @ ''/v1/post/abcdefghijk'')"
  have h1: "\<forall>j<2. \<exists>r. ?srv (served world0 + j) ?rq = Inr r \<and> status_code r = 429"
    by (simp add: busy_then_def world0_def)
  have h2: "?srv (served world0 + 2) ?rq = Inr \<lparr>status_code = 200, body = doc_post\<rparr>"
    by (simp add: busy_then_def world0_def)
  have h3: "status_code \<lparr>status_code = 200, body = doc_post\<rparr> < 300"
    by simp
  have d: "bind_err (loads sample_library doc_post) (\<lambda>decoded. getitem decoded ''data'') =
     Inr (PDict [(''created'', PStr ''c0''), (''image_count'', PInt 2),
         (''images'', PList [PDict [(''link'', PStr ''u1''), (''created'', PStr ''c1'')],
                             PDict [(''link'', PStr ''u2''), (''created'', PStr ''c2'')]])])"
    by code_simp
  have n: "concat (replicate 2 [Request ?rq, Wait 600]) = [Request ?rq, Wait 600, Request ?rq, Wait 600]"
    by (simp add: numeral_2_eq_2)
  show ?thesis
    using h1 h2 h3 d n
      call_retries_429 [where k = 2 and srv = ?srv and w = world0 and self = "api_init ''token''"
        and endpoint = "''/v1/post/abcdefghijk''" and L = sample_library
        and r = "\<lparr>status_code = 200, body = doc_post\<rparr>"]
    by (simp add: world0_def api_root_def)
qed

text \<open>
  Claim C2, as stated: \<^verbatim>\<open>items\<close> ends silently the first time a response cannot be
  parsed as JSON or its decoded body lacks the \<^verbatim>\<open>data\<close> field. It fails when the first
  answer is the body \<^verbatim>\<open><html>\<close>: \<^verbatim>\<open>Response.json()\<close> raises \<^verbatim>\<open>JSONDecodeError\<close>, a
  \<^verbatim>\<open>ValueError\<close>, which \<^verbatim>\<open>except (TypeError, KeyError)\<close> does not catch, and the
  error leaves \<^verbatim>\<open>items\<close>.
\<close>

theorem items_pages_counterexample:
  "json_loads sample_library ''<html>'' = None
   \<and> items sample_library (always \<lparr>status_code = 200, body = ''<html>''\<rparr>) sample_user world0 =
       Some (Inl JSONDecodeError,
         \<lparr>served = 1, trace =
           [Request (user_request sample_library sample_user ''https://imgchest.com/api/posts'' 1),
            Decode ''<html>'']\<rparr>)"
  by code_simp

text \<open>
  Claim C2, amended. Let the first \<^verbatim>\<open>k\<close> answers to \<^verbatim>\<open>items\<close> be pages the loop
  body succeeds on, of whatever size, and let the next request be answered. Then the
  requests sent are the \<^verbatim>\<open>k + 1\<close> requests with \<^verbatim>\<open>page\<close> = 1, 2, ..., k + 1, in
  that order, and
  \<^item> when the body of the last answer decodes and subscripting it with \<^verbatim>\<open>data\<close> fails
    (it is no dictionary, or a dictionary without \<^verbatim>\<open>data\<close>), \<^verbatim>\<open>items\<close> returns
    without an error;
  \<^item> when the body of the last answer is not valid JSON, \<^verbatim>\<open>items\<close> raises the decoder's
    error.
\<close>

theorem items_pages:
  assumes "\<forall>j<k. listing L (srv (served w + j)
              (user_request L self (root @ ''/api/posts'') (1 + int j))) \<noteq> None"
    and "srv (served w + k) (user_request L self (root @ ''/api/posts'') (1 + int k)) = Inr r"
  shows "(\<forall>v e. json_loads L (body r) = Some v \<and> getitem v ''data'' = Inl e \<longrightarrow>
           (\<exists>w' tr. items L srv self w = Some (Inr (), w') \<and> trace w' = trace w @ tr
              \<and> requests_of tr =
                  map (\<lambda>j. user_request L self (root @ ''/api/posts'') (1 + int j)) [0..<Suc k]))
       \<and> (json_loads L (body r) = None \<longrightarrow>
           (\<exists>w' tr. items L srv self w = Some (Inl JSONDecodeError, w') \<and> trace w' = trace w @ tr
              \<and> requests_of tr =
                  map (\<lambda>j. user_request L self (root @ ''/api/posts'') (1 + int j)) [0..<Suc k]))"
proof -
  let ?u = "root @ ''/api/posts''"
  let ?rq = "\<lambda>j. user_request L self ?u (1 + int j)"
  from items_loop_steps [OF assms(1)] obtain tr where tr:
    "items_loop L srv self ?u 1 w =
       items_loop L srv self ?u (1 + int k) (w\<lparr>served := served w + k, trace := trace w @ tr\<rparr>)"
    "requests_of tr = map ?rq [0..<k]"
    by blast
  let ?w = "w\<lparr>served := served w + k, trace := trace w @ tr\<rparr>"
  let ?w' = "?w\<lparr>served := Suc (served ?w), trace := trace ?w @ [Request (?rq k), Decode (body r)]\<rparr>"
  have last: "srv (served ?w) (?rq k) = Inr r"
    using assms(2) by simp
  have tw: "trace ?w' = trace w @ (tr @ [Request (?rq k), Decode (body r)])"
    by simp
  have rq: "requests_of (tr @ [Request (?rq k), Decode (body r)]) = map ?rq [0..<Suc k]"
    using tr(2) by (simp add: requests_of_append)
  have silent: "\<exists>w' tr. items L srv self w = Some (Inr (), w') \<and> trace w' = trace w @ tr
      \<and> requests_of tr = map ?rq [0..<Suc k]"
    if "json_loads L (body r) = Some v" "getitem v ''data'' = Inl e" for v e
  proof -
    have "items L srv self w = Some (Inr (), ?w')"
      unfolding items_def
      using tr(1) last that
        items_loop_stop [where srv = srv and w = ?w and L = L and self = self and u = ?u
          and p = "1 + int k" and r = r and v = v and e = e]
      by simp
    with tw rq show ?thesis by blast
  qed
  have raised: "\<exists>w' tr. items L srv self w = Some (Inl JSONDecodeError, w') \<and> trace w' = trace w @ tr
      \<and> requests_of tr = map ?rq [0..<Suc k]"
    if "json_loads L (body r) = None"
  proof -
    have "items L srv self w = Some (Inl JSONDecodeError, ?w')"
      unfolding items_def
      using tr(1) last that
        items_loop_undecodable [where srv = srv and w = ?w and L = L and self = self and u = ?u
          and p = "1 + int k" and r = r]
      by simp
    with tw rq show ?thesis by blast
  qed
  show ?thesis
    using silent raised by blast
qed

text \<open>
  One listed page, then a page that is the empty object: two requests, pages 1 and 2,
  and a silent end. One listed page, then a page that is no JSON: the same two requests,
  and the decoder's error.
\<close>

theorem items_pages_witness:
  "items sample_library (one_page_then \<lparr>status_code = 200, body = ''{}''\<rparr>) sample_user world0 =
     Some (Inr (),
       \<lparr>served = 2, trace =
         [Request (user_request sample_library sample_user ''https://imgchest.com/api/posts'' 1),
          Decode doc_listing,
          Yield (Queue (PStr ''https://imgchest.com/p/abcdefghijk'')
            (PDict [(''link'', PStr ''https://imgchest.com/p/abcdefghijk''),
                    (''_extractor'', PClass ''ImagechestGalleryExtractor'')])),
          Request (user_request sample_library sample_user ''https://imgchest.com/api/posts'' 2),
          Decode ''{}'']\<rparr>)
   \<and> (\<exists>w' tr. items sample_library (one_page_then \<lparr>status_code = 200, body = ''{}''\<rparr>)
                  sample_user world0 = Some (Inr (), w')
         \<and> trace w' = trace world0 @ tr
         \<and> requests_of tr =
              [user_request sample_library sample_user (root @ ''/api/posts'') 1,
               user_request sample_library sample_user (root @ ''/api/posts'') 2])
   \<and> (\<exists>w' tr. items sample_library (one_page_then \<lparr>status_code = 200, body = ''<html>''\<rparr>)
                  sample_user world0 = Some (Inl JSONDecodeError, w')
         \<and> trace w' = trace world0 @ tr
         \<and> requests_of tr =
              [user_request sample_library sample_user (root @ ''/api/posts'') 1,
               user_request sample_library sample_user (root @ ''/api/posts'') 2])"
proof -
  let ?u = "root @ ''/api/posts''"
  let ?rq = "\<lambda>j. user_request sample_library sample_user ?u (1 + int j)"
  let ?empty = "\<lparr>status_code = 200, body = ''{}''\<rparr>"
  let ?html = "\<lparr>status_code = 200, body = ''<html>''\<rparr>"
  have run: "items sample_library (one_page_then ?empty) sample_user world0 =
     Some (Inr (),
       \<lparr>served = 2, trace =
         [Request (user_request sample_library sample_user ''https://imgchest.com/api/posts'' 1),
          Decode doc_listing,
          Yield (Queue (PStr ''https://imgchest.com/p/abcdefghijk'')
            (PDict [(''link'', PStr ''https://imgchest.com/p/abcdefghijk''),
                    (''_extractor'', PClass ''ImagechestGalleryExtractor'')])),
          Request (user_request sample_library sample_user ''https://imgchest.com/api/posts'' 2),
          Decode ''{}'']\<rparr>)"
    by code_simp
  have a1: "\<forall>j<1. listing sample_library
      (one_page_then ?empty (served world0 + j) (?rq j)) \<noteq> None"
    by code_simp
  have a2: "one_page_then ?empty (served world0 + 1) (?rq 1) = Inr ?empty"
    by code_simp
  have a3: "json_loads sample_library (body ?empty) = Some (PDict [])
      \<and> getitem (PDict []) ''data'' = Inl (KeyError ''data'')"
    by code_simp
  have b1: "\<forall>j<1. listing sample_library
      (one_page_then ?html (served world0 + j) (?rq j)) \<noteq> None"
    by code_simp
  have b2: "one_page_then ?html (served world0 + 1) (?rq 1) = Inr ?html"
    by code_simp
  have b3: "json_loads sample_library (body ?html) = None"
    by code_simp
  have m: "map ?rq [0..<Suc 1] = [user_request sample_library sample_user ?u 1,
      user_request sample_library sample_user ?u 2]"
    by simp
  have c1: "\<exists>w' tr. items sample_library (one_page_then ?empty) sample_user world0 = Some (Inr (), w')
         \<and> trace w' = trace world0 @ tr \<and> requests_of tr = map ?rq [0..<Suc 1]"
    using a1 a2 a3
      items_pages [where k = 1 and L = sample_library and srv = "one_page_then ?empty"
        and w = world0 and self = sample_user and r = ?empty]
    by blast
  have c2: "\<exists>w' tr. items sample_library (one_page_then ?html) sample_user world0
           = Some (Inl JSONDecodeError, w')
         \<and> trace w' = trace world0 @ tr \<and> requests_of tr = map ?rq [0..<Suc 1]"
    using b1 b2 b3
      items_pages [where k = 1 and L = sample_library and srv = "one_page_then ?html"
        and w = world0 and self = sample_user and r = ?html]
    by blast
  show ?thesis
    using run c1 c2 unfolding m by blast
qed

text \<open>
  Claim C3, as stated: for every page body without \<^verbatim>\<open>Not Found\<close> whose
  \<^verbatim>\<open>data-page\<close> attribute is missing or holds no valid JSON, \<^verbatim>\<open>metadata\<close> returns a
  mapping and \<^verbatim>\<open>images\<close> an empty sequence. It fails on \<^verbatim>\<open>page_broken\<close>, whose
  attribute value is \<^verbatim>\<open>x\<close>: \<^verbatim>\<open>_retrieve_page_data\<close> is called outside the
  \<^verbatim>\<open>try\<close> blocks, and the decoder's error leaves both \<^verbatim>\<open>metadata\<close> and
  \<^verbatim>\<open>images\<close>.
\<close>

theorem page_data_failures_counterexample:
  "\<not> in_str ''Not Found'' page_broken
   \<and> extr page_broken data_page_marker [dq] ''{}'' = ''x''
   \<and> json_loads sample_library (unescape (charref sample_library) ''x'') = None
   \<and> metadata sample_library (init ''abcdefghijk'') page_broken = Inl JSONDecodeError
   \<and> images sample_library (init ''abcdefghijk'') page_broken = Inl JSONDecodeError"
  by code_simp

text \<open>
  Claim C3, amended. For a page body without \<^verbatim>\<open>Not Found\<close>:
  \<^item> when the \<^verbatim>\<open>data-page\<close> attribute is missing, \<^verbatim>\<open>metadata\<close> returns the mapping
    that holds the gallery id alone and \<^verbatim>\<open>images\<close> returns the empty sequence;
  \<^item> when the attribute value decodes, to whatever value, neither raises, and
    \<^verbatim>\<open>images\<close> returns the empty sequence when \<^verbatim>\<open>props.post.files\<close> cannot be read;
  \<^item> when the attribute value is not valid JSON, the decoder's error is raised by both.
\<close>

theorem page_data_failures:
  assumes "\<not> in_str ''Not Found'' page"
  shows "(str_index data_page_marker page = None \<and> json_loads L ''{}'' = Some (PDict []) \<longrightarrow>
            metadata L self page = Inr [(''gallery_id'', PStr (gallery_id self))]
            \<and> images L self page = Inr [])
       \<and> (\<forall>pd. retrieve_page_data L page = Inr pd \<longrightarrow>
            (\<exists>m. metadata L self page = Inr m) \<and> (\<exists>fs. images L self page = Inr fs)
            \<and> (\<forall>e. post_attribute pd ''files'' = Inl e \<longrightarrow> images L self page = Inr []))
       \<and> (json_loads L (unescape (charref L) (extr page data_page_marker [dq] ''{}'')) = None \<longrightarrow>
            metadata L self page = Inl JSONDecodeError \<and> images L self page = Inl JSONDecodeError)"
proof (intro conjI impI allI)
  assume a: "str_index data_page_marker page = None \<and> json_loads L ''{}'' = Some (PDict [])"
  then have "extr page data_page_marker [dq] ''{}'' = ''{}''"
    by (simp add: extr_absent)
  with a have pd: "retrieve_page_data L page = Inr (PDict [])"
    by (simp add: retrieve_empty_object)
  show "metadata L self page = Inr [(''gallery_id'', PStr (gallery_id self))]"
    using assms pd by (rule metadata_empty_object)
  show "images L self page = Inr []"
    using pd by (rule images_empty_object)
next
  fix pd
  assume pd: "retrieve_page_data L page = Inr pd"
  show "\<exists>m. metadata L self page = Inr m"
    using metadata_decoded [OF assms pd] by simp
  show "\<exists>fs. images L self page = Inr fs"
    using images_decoded [OF pd, of self] by (simp split: sum.splits)
  fix e
  assume "post_attribute pd ''files'' = Inl e"
  then show "images L self page = Inr []"
    using images_decoded [OF pd, of self] by simp
next
  assume "json_loads L (unescape (charref L) (extr page data_page_marker [dq] ''{}'')) = None"
  then have err: "retrieve_page_data L page = Inl JSONDecodeError"
    by (simp add: retrieve_page_data_def loads_def)
  show "metadata L self page = Inl JSONDecodeError"
    using assms err by (rule metadata_error)
  show "images L self page = Inl JSONDecodeError"
    using err by (rule images_error)
qed

text \<open>
  One page for each case: \<^verbatim>\<open>page_plain\<close> has no attribute, the document of
  \<^verbatim>\<open>page_tags\<close> has no files, the attribute of \<^verbatim>\<open>page_broken\<close> is no JSON.
\<close>

theorem page_data_failures_witness:
  "\<not> in_str ''Not Found'' page_plain
   \<and> str_index data_page_marker page_plain = None
   \<and> json_loads sample_library ''{}'' = Some (PDict [])
   \<and> metadata sample_library (init ''abcdefghijk'') page_plain = Inr [(''gallery_id'', PStr ''abcdefghijk'')]
   \<and> images sample_library (init ''abcdefghijk'') page_plain = Inr []
   \<and> \<not> in_str ''Not Found'' page_tags
   \<and> (\<exists>pd. retrieve_page_data sample_library page_tags = Inr pd
         \<and> post_attribute pd ''files'' = Inl (KeyError ''files''))
   \<and> images sample_library (init ''abcdefghijk'') page_tags = Inr []
   \<and> \<not> in_str ''Not Found'' page_broken
   \<and> json_loads sample_library
        (unescape (charref sample_library) (extr page_broken data_page_marker [dq] ''{}'')) = None
   \<and> metadata sample_library (init ''abcdefghijk'') page_broken = Inl JSONDecodeError
   \<and> images sample_library (init ''abcdefghijk'') page_broken = Inl JSONDecodeError"
proof -
  let ?pd = "PDict [(''props'', PDict [(''post'',
      PDict [(''id'', PStr ''abcdefghijk''), (''tags'', PList [PStr ''a'', PStr ''b'', PStr ''c''])])])]"
  have n1: "\<not> in_str ''Not Found'' page_plain" by code_simp
  have n2: "\<not> in_str ''Not Found'' page_tags" by code_simp
  have n3: "\<not> in_str ''Not Found'' page_broken" by code_simp
  have a1: "str_index data_page_marker page_plain = None" by code_simp
  have a2: "json_loads sample_library ''{}'' = Some (PDict [])" by code_simp
  have b1: "retrieve_page_data sample_library page_tags = Inr ?pd" by code_simp
  have b2: "post_attribute ?pd ''files'' = Inl (KeyError ''files'')"
    by (simp add: post_attribute_def)
  have c1: "json_loads sample_library
        (unescape (charref sample_library) (extr page_broken data_page_marker [dq] ''{}'')) = None"
    by code_simp
  have r1: "metadata sample_library (init ''abcdefghijk'') page_plain = Inr [(''gallery_id'', PStr ''abcdefghijk'')]
   \<and> images sample_library (init ''abcdefghijk'') page_plain = Inr []"
    using page_data_failures [OF n1, of sample_library "init ''abcdefghijk''"] a1 a2
    by (simp add: init_def)
  have r2: "images sample_library (init ''abcdefghijk'') page_tags = Inr []"
    using page_data_failures [OF n2, of sample_library "init ''abcdefghijk''"] b1 b2 by blast
  have r3: "metadata sample_library (init ''abcdefghijk'') page_broken = Inl JSONDecodeError
     \<and> images sample_library (init ''abcdefghijk'') page_broken = Inl JSONDecodeError"
    using page_data_failures [OF n3, of sample_library "init ''abcdefghijk''"] c1 by blast
  show ?thesis
    using n1 n2 n3 a1 a2 b1 b2 c1 r1 r2 r3 by blast
qed

text \<open>
  Claim C4. In a call of \<^verbatim>\<open>_call\<close>, after any number \<^verbatim>\<open>k\<close> of answers 429, an
  answer with a status from 300 to 399 raises \<^verbatim>\<open>AuthenticationError\<close>, and an answer
  with a status of 400 or more other than 429 raises \<^verbatim>\<open>StopExtraction\<close> after the raw
  body went to the debug log. In both cases the request that got the answer is the last
  event but for the log line: the request is not sent again.
\<close>

theorem call_fails_at_once:
  assumes "\<forall>j<k. \<exists>r. srv (served w + j) (api_request self (api_root @ endpoint)) = Inr r
              \<and> status_code r = 429"
    and "srv (served w + k) (api_request self (api_root @ endpoint)) = Inr r"
  shows "(300 \<le> status_code r \<and> status_code r < 400 \<longrightarrow>
          call L srv self endpoint w =
            Some (Inl (AuthenticationError ''Invalid API access token''),
              w\<lparr>served := served w + k + 1,
                trace := trace w
                  @ concat (replicate k [Request (api_request self (api_root @ endpoint)), Wait 600])
                  @ [Request (api_request self (api_root @ endpoint))]\<rparr>))
       \<and> (400 \<le> status_code r \<and> status_code r \<noteq> 429 \<longrightarrow>
          call L srv self endpoint w =
            Some (Inl (StopExtraction ''API request failed''),
              w\<lparr>served := served w + k + 1,
                trace := trace w
                  @ concat (replicate k [Request (api_request self (api_root @ endpoint)), Wait 600])
                  @ [Request (api_request self (api_root @ endpoint)), Debug (body r)]\<rparr>))"
proof -
  let ?u = "api_root @ endpoint"
  let ?w = "w\<lparr>served := served w + k,
          trace := trace w @ concat (replicate k [Request (api_request self ?u), Wait 600])\<rparr>"
  have loop: "call L srv self endpoint w = call_loop L srv self ?u ?w"
    unfolding call_def using assms(1) by (rule call_loop_429s)
  have r: "srv (served ?w) (api_request self ?u) = Inr r"
    using assms(2) by simp
  show ?thesis
    using loop r call_loop_redirect [of srv ?w self ?u r L]
      call_loop_failure [of srv ?w self ?u r L]
    by simp
qed

text \<open>
  A redirect as the first answer, and a server error after two answers 429.
\<close>

theorem call_fails_at_once_witness:
  "call sample_library (always \<lparr>status_code = 302, body = ''''\<rparr>) (api_init ''token'')
      ''/v1/post/abcdefghijk'' world0 =
     Some (Inl (AuthenticationError ''Invalid API access token''),
       \<lparr>served = 1, trace =
         [Request (api_request (api_init ''token'') ''https://api.imgchest.com/v1/post/abcdefghijk'')]\<rparr>)
   \<and> call sample_library (busy_then \<lparr>status_code = 500, body = ''Server Error''\<rparr>) (api_init ''token'')
      ''/v1/post/abcdefghijk'' world0 =
     Some (Inl (StopExtraction ''API request failed''),
       \<lparr>served = 3, trace =
         [Request (api_request (api_init ''token'') ''https://api.imgchest.com/v1/post/abcdefghijk''),
          Wait 600,
          Request (api_request (api_init ''token'') ''https://api.imgchest.com/v1/post/abcdefghijk''),
          Wait 600,
          Request (api_request (api_init ''token'') ''https://api.imgchest.com/v1/post/abcdefghijk''),
          Debug ''Server Error'']\<rparr>)"
proof -
  let ?r1 = "\<lparr>status_code = 302, body = ''''\<rparr>"
  let ?r2 = "\<lparr>status_code = 500, body = ''Server Error''\<rparr>"
  let ?rq = "api_request (api_init ''token'') (api_root @ ''/v1/post/abcdefghijk'')"
  have a1: "\<forall>j<0. \<exists>r. always ?r1 (served world0 + j) ?rq = Inr r \<and> status_code r = 429"
    by simp
  have a2: "always ?r1 (served world0 + 0) ?rq = Inr ?r1"
    by (simp add: always_def)
  have a3: "300 \<le> status_code ?r1 \<and> status_code ?r1 < 400"
    by simp
  have b1: "\<forall>j<2. \<exists>r. busy_then ?r2 (served world0 + j) ?rq = Inr r \<and> status_code r = 429"
    by (simp add: busy_then_def world0_def)
  have b2: "busy_then ?r2 (served world0 + 2) ?rq = Inr ?r2"
    by (simp add: busy_then_def world0_def)
  have b3: "400 \<le> status_code ?r2 \<and> status_code ?r2 \<noteq> 429"
    by simp
  have n: "concat (replicate 2 [Request ?rq, Wait 600]) = [Request ?rq, Wait 600, Request ?rq, Wait 600]"
    by (simp add: numeral_2_eq_2)
  have c1: "call sample_library (always ?r1) (api_init ''token'') ''/v1/post/abcdefghijk'' world0 =
     Some (Inl (AuthenticationError ''Invalid API access token''),
       world0\<lparr>served := served world0 + 0 + 1,
         trace := trace world0 @ concat (replicate 0 [Request ?rq, Wait 600]) @ [Request ?rq]\<rparr>)"
    using a1 a2 a3
      call_fails_at_once [where k = 0 and srv = "always ?r1" and w = world0
        and self = "api_init ''token''" and endpoint = "''/v1/post/abcdefghijk''"
        and L = sample_library and r = ?r1]
    by blast
  have c2: "call sample_library (busy_then ?r2) (api_init ''token'') ''/v1/post/abcdefghijk'' world0 =
     Some (Inl (StopExtraction ''API request failed''),
       world0\<lparr>served := served world0 + 2 + 1,
         trace := trace world0 @ concat (replicate 2 [Request ?rq, Wait 600])
           @ [Request ?rq, Debug (body ?r2)]\<rparr>)"
    using b1 b2 b3
      call_fails_at_once [where k = 2 and srv = "busy_then ?r2" and w = world0
        and self = "api_init ''token''" and endpoint = "''/v1/post/abcdefghijk''"
        and L = sample_library and r = ?r2]
    by blast
  show ?thesis
    using c1 c2 n by (simp add: world0_def api_root_def)
qed

text \<open>
  Claim C5. In page-scrape mode, a page body that contains \<^verbatim>\<open>Not Found\<close> anywhere makes
  \<^verbatim>\<open>metadata\<close> raise \<^verbatim>\<open>NotFoundError\<close>. The library \<^verbatim>\<open>L\<close> is arbitrary: the result
  is the same whatever the JSON decoder does with the body, when the body holds a
  well-formed \<^verbatim>\<open>data-page\<close> document and when decoding it would raise. The test comes
  before any decoding, and no decoding takes part in the result.
\<close>

theorem metadata_not_found:
  "page = pre @ ''Not Found'' @ suf \<Longrightarrow> metadata L self page = Inl (NotFoundError ''gallery'')"
  using in_str_iff [of "''Not Found''" page] by (auto simp: metadata_def)

text \<open>
  The page \<^verbatim>\<open>page_not_found\<close> holds both \<^verbatim>\<open>Not Found\<close> and a well-formed document;
  the page \<^verbatim>\<open>page_not_found_broken\<close> holds \<^verbatim>\<open>Not Found\<close> and a document on which
  the decoder raises.
\<close>

theorem metadata_not_found_witness:
  "page_not_found = ''<title>'' @ ''Not Found'' @ drop 16 page_not_found
   \<and> retrieve_page_data sample_library page_not_found = Inr (PDict [])
   \<and> metadata sample_library (init ''abcdefghijk'') page_not_found = Inl (NotFoundError ''gallery'')
   \<and> page_not_found_broken = ''<title>'' @ ''Not Found'' @ drop 16 page_not_found_broken
   \<and> retrieve_page_data sample_library page_not_found_broken = Inl JSONDecodeError
   \<and> metadata sample_library (init ''abcdefghijk'') page_not_found_broken
        = Inl (NotFoundError ''gallery'')"
proof -
  have split: "page_not_found = ''<title>'' @ ''Not Found'' @ drop 16 page_not_found"
    by (simp add: page_not_found_def)
  have broken: "page_not_found_broken = ''<title>'' @ ''Not Found'' @ drop 16 page_not_found_broken"
    by (simp add: page_not_found_broken_def)
  have m1: "metadata sample_library (init ''abcdefghijk'') page_not_found
      = Inl (NotFoundError ''gallery'')"
    by (rule metadata_not_found [OF split])
  have m2: "metadata sample_library (init ''abcdefghijk'') page_not_found_broken
      = Inl (NotFoundError ''gallery'')"
    by (rule metadata_not_found [OF broken])
  have d1: "retrieve_page_data sample_library page_not_found = Inr (PDict [])"
    by code_simp
  have d2: "retrieve_page_data sample_library page_not_found_broken = Inl JSONDecodeError"
    by code_simp
  show ?thesis
    using split broken m1 m2 d1 d2 by simp
qed

text \<open>
  Claim C6, as stated: a page-scrape resolver fed any page body that contains
  \<^verbatim>\<open>data-page="{}"\<close> and not \<^verbatim>\<open>Not Found\<close> returns the mapping with the gallery id
  alone and no images. It fails on \<^verbatim>\<open>page_two_markers\<close>, which contains
  \<^verbatim>\<open>data-page="{}"\<close> after a first \<^verbatim>\<open>data-page="x"\<close>: the value read is the one
  after the first marker, and decoding \<^verbatim>\<open>x\<close> raises.
\<close>

theorem empty_page_data_counterexample:
  "valid_gallery_id ''abcdefghijk''
   \<and> in_str (data_page_marker @ ''{}'' @ [dq]) page_two_markers
   \<and> \<not> in_str ''Not Found'' page_two_markers
   \<and> metadata sample_library (init_config None (init ''abcdefghijk'')) page_two_markers
       = Inl JSONDecodeError
   \<and> images sample_library (init_config None (init ''abcdefghijk'')) page_two_markers
       = Inl JSONDecodeError"
  by code_simp

text \<open>
  Claim C6, amended. For every gallery id, a page-scrape resolver constructed with
  that id and fed a page body without \<^verbatim>\<open>Not Found\<close> in which the first
  \<^verbatim>\<open>data-page="\<close> is the one of \<^verbatim>\<open>data-page="{}"\<close> returns exactly the mapping
  \<^verbatim>\<open>{"gallery_id": id}\<close> from \<^verbatim>\<open>metadata\<close> and exactly the empty list from
  \<^verbatim>\<open>images\<close>. (The decoder maps \<^verbatim>\<open>{}\<close> to the empty dictionary.)
\<close>

theorem empty_page_data:
  assumes "page = pre @ data_page_marker @ ''{}'' @ [dq] @ suf"
    and "str_index data_page_marker page = Some (length pre)"
    and "\<not> in_str ''Not Found'' page"
    and "json_loads L ''{}'' = Some (PDict [])"
  shows "metadata L (init_config None (init gid)) page = Inr [(''gallery_id'', PStr gid)]
       \<and> images L (init_config None (init gid)) page = Inr []"
proof -
  have "extr page data_page_marker [dq] ''{}'' = ''{}''"
    using assms(1,2) by (rule extr_empty_object)
  then have pd: "retrieve_page_data L page = Inr (PDict [])"
    using assms(4) by (rule retrieve_empty_object)
  have "gallery_id (init_config None (init gid)) = gid"
    by (simp add: init_config_def init_def)
  then show ?thesis
    using metadata_empty_object [OF assms(3) pd, of "init_config None (init gid)"]
      images_empty_object [OF pd, of "init_config None (init gid)"]
    by simp
qed

theorem empty_page_data_witness:
  "page_empty = ''<div '' @ data_page_marker @ ''{}'' @ [dq] @ ''></div>''
   \<and> str_index data_page_marker page_empty = Some (length ''<div '')
   \<and> \<not> in_str ''Not Found'' page_empty
   \<and> json_loads sample_library ''{}'' = Some (PDict [])
   \<and> metadata sample_library (init_config None (init ''abcdefghijk'')) page_empty
        = Inr [(''gallery_id'', PStr ''abcdefghijk'')]
   \<and> images sample_library (init_config None (init ''abcdefghijk'')) page_empty = Inr []"
proof -
  have h1: "page_empty = ''<div '' @ data_page_marker @ ''{}'' @ [dq] @ ''></div>''"
    by code_simp
  have h2: "str_index data_page_marker page_empty = Some (length ''<div '')"
    by code_simp
  have h3: "\<not> in_str ''Not Found'' page_empty"
    by code_simp
  have h4: "json_loads sample_library ''{}'' = Some (PDict [])"
    by code_simp
  show ?thesis
    using h1 h2 h3 h4 empty_page_data [OF h1 h2 h3 h4, of "''abcdefghijk''"] by simp
qed

text \<open>
  Claim C7. In API mode, let the lookup return a post whose \<^verbatim>\<open>images\<close> is a list of
  images that each have a \<^verbatim>\<open>link\<close>, and let \<^verbatim>\<open>_metadata_api\<close> return. The list
  \<^verbatim>\<open>imgs\<close> it kept is the post's list in its order, each image with its date added;
  the post returned no longer has it. A later \<^verbatim>\<open>_images_api\<close> on the instance
  returns one pair per kept image, in that order: the second components are exactly
  \<^verbatim>\<open>imgs\<close>, and each first component is the \<^verbatim>\<open>link\<close> of its second.
\<close>

theorem images_api_returns_stash:
  assumes "api self = Some a"
    and "api_post L srv a (gallery_id self) w = Some (Inr post0, w1)"
    and "getitem post0 ''images'' = Inr (PList imgs0)"
    and "\<forall>img\<in>set imgs0. \<exists>link. getitem img ''link'' = Inr link"
    and "metadata_api L srv self page w = Some (Inr m, self', w')"
  shows "\<exists>imgs prs.
           mapM_err (add_date L) imgs0 = Inr imgs
         \<and> getitem m ''images'' = Inl (KeyError ''images'')
         \<and> image_list self' = Some (PList imgs)
         \<and> images_api self' page' = Inr prs
         \<and> map snd prs = imgs
         \<and> (\<forall>p\<in>set prs. getitem (snd p) ''link'' = Inr (fst p))"
proof -
  from assms(5) obtain a' post0' stash where s: "api self = Some a'"
    "api_post L srv a' (gallery_id self) w = Some (Inr post0', w')"
    "prepare_post L (gallery_id self) post0' = Inr (m, stash)"
    "self' = self\<lparr>image_list := Some stash\<rparr>"
    by (elim metadata_api_Inr)
  with assms(1,2) have same: "post0' = post0" by simp
  from s(3) obtain d date imgs where p: "post0' = PDict d" "map_of d ''images'' = Some imgs"
    "add_dates L imgs = Inr stash"
    "m = PDict (AList.delete ''images'' (AList.delete ''image_count''
           (AList.update ''gallery_id'' (PStr (gallery_id self))
             (AList.update ''images'' stash (AList.update ''date'' date d)))))"
    by (elim prepare_post_Inr)
  from p(1,2) same assms(3) have "imgs = PList imgs0" by simp
  with p(3) obtain ys where ys: "mapM_err (add_date L) imgs0 = Inr ys" "stash = PList ys"
    by (cases "mapM_err (add_date L) imgs0") (simp_all add: add_dates_def)
  have gone: "getitem m ''images'' = Inl (KeyError ''images'')"
    using p(4) by (simp add: delete_conv')
  have "map (\<lambda>img. getitem img ''link'') ys = map (\<lambda>img. getitem img ''link'') imgs0"
    using ys(1) by (rule mapM_err_links)
  then have "\<forall>img\<in>set ys. \<exists>link. getitem img ''link'' = Inr link"
    using assms(4) by (metis (mono_tags, lifting) imageE image_eqI list.set_map)
  then obtain prs where prs: "mapM_err image_pair ys = Inr prs" "map snd prs = ys"
    "\<forall>p\<in>set prs. getitem (snd p) ''link'' = Inr (fst p)"
    using mapM_err_image_pair by blast
  have "images_api self' page' = Inr prs"
    using s(4) ys(2) prs(1) by (simp add: images_api_def)
  with ys gone s(4) prs show ?thesis by simp
qed

text \<open>
  The two images of \<^verbatim>\<open>doc_post\<close>, in their order, each with its link and its own
  metadata.
\<close>

theorem images_api_returns_stash_witness:
  "api sample_extractor = Some (api_init ''token'')
   \<and> api_post sample_library (always \<lparr>status_code = 200, body = doc_post\<rparr>) (api_init ''token'')
        (gallery_id sample_extractor) world0 =
      Some (Inr (PDict [(''created'', PStr ''c0''), (''image_count'', PInt 2),
         (''images'', PList [PDict [(''link'', PStr ''u1''), (''created'', PStr ''c1'')],
                             PDict [(''link'', PStr ''u2''), (''created'', PStr ''c2'')]])]),
        \<lparr>served = 1, trace =
          [Request (api_request (api_init ''token'') ''https://api.imgchest.com/v1/post/abcdefghijk''),
           Decode doc_post]\<rparr>)
   \<and> (\<exists>m self' w'.
        metadata_api sample_library (always \<lparr>status_code = 200, body = doc_post\<rparr>)
          sample_extractor [] world0 = Some (Inr m, self', w')
      \<and> getitem m ''images'' = Inl (KeyError ''images'')
      \<and> image_list self' = Some (PList
          [PDict [(''link'', PStr ''u1''), (''created'', PStr ''c1''), (''date'', PDatetime ''c1'')],
           PDict [(''link'', PStr ''u2''), (''created'', PStr ''c2''), (''date'', PDatetime ''c2'')]])
      \<and> images_api self' [] = Inr
          [(PStr ''u1'', PDict [(''link'', PStr ''u1''), (''created'', PStr ''c1''), (''date'', PDatetime ''c1'')]),
           (PStr ''u2'', PDict [(''link'', PStr ''u2''), (''created'', PStr ''c2''), (''date'', PDatetime ''c2'')])])"
proof -
  let ?srv = "always \<lparr>status_code = 200, body = doc_post\<rparr>"
  let ?raw = "[PDict [(''link'', PStr ''u1''), (''created'', PStr ''c1'')],
                 PDict [(''link'', PStr ''u2''), (''created'', PStr ''c2'')]]"
  let ?answer = "PDict [(''created'', PStr ''c0''), (''image_count'', PInt 2), (''images'', PList ?raw)]"
  let ?imgs = "[PDict [(''link'', PStr ''u1''), (''created'', PStr ''c1''), (''date'', PDatetime ''c1'')],
           PDict [(''link'', PStr ''u2''), (''created'', PStr ''c2''), (''date'', PDatetime ''c2'')]]"
  let ?m = "PDict [(''created'', PStr ''c0''), (''date'', PDatetime ''c0''),
                       (''gallery_id'', PStr ''abcdefghijk'')]"
  let ?after = "\<lparr>served = 1, trace =
          [Request (api_request (api_init ''token'') ''https://api.imgchest.com/v1/post/abcdefghijk''),
           Decode doc_post]\<rparr>"
  have h1: "api sample_extractor = Some (api_init ''token'')"
    by code_simp
  have h2: "api_post sample_library ?srv (api_init ''token'') (gallery_id sample_extractor) world0 =
      Some (Inr ?answer, ?after)"
    by code_simp
  have h3: "getitem ?answer ''images'' = Inr (PList ?raw)"
    by simp
  have h4: "\<forall>img\<in>set ?raw. \<exists>link. getitem img ''link'' = Inr link"
    by simp
  have h5: "metadata_api sample_library ?srv sample_extractor [] world0 =
     Some (Inr ?m, sample_extractor\<lparr>image_list := Some (PList ?imgs)\<rparr>, ?after)"
    by code_simp
  have dates: "mapM_err (add_date sample_library) ?raw = Inr ?imgs"
    by code_simp
  from images_api_returns_stash [OF h1 h2 h3 h4 h5, of "[]"]
  obtain imgs prs where r: "mapM_err (add_date sample_library) ?raw = Inr imgs"
      "getitem ?m ''images'' = Inl (KeyError ''images'')"
      "image_list (sample_extractor\<lparr>image_list := Some (PList ?imgs)\<rparr>) = Some (PList imgs)"
      "images_api (sample_extractor\<lparr>image_list := Some (PList ?imgs)\<rparr>) [] = Inr prs"
      "map snd prs = imgs"
      "\<forall>p\<in>set prs. getitem (snd p) ''link'' = Inr (fst p)"
    by blast
  have run: "images_api (sample_extractor\<lparr>image_list := Some (PList ?imgs)\<rparr>) [] = Inr
          [(PStr ''u1'', PDict [(''link'', PStr ''u1''), (''created'', PStr ''c1''), (''date'', PDatetime ''c1'')]),
           (PStr ''u2'', PDict [(''link'', PStr ''u2''), (''created'', PStr ''c2''), (''date'', PDatetime ''c2'')])]"
    by (simp add: images_api_def image_pair_def)
  show ?thesis
    using h1 h2 h5 r(2) run by simp
qed

text \<open>
  Claim C8. In page-scrape mode, when the embedded post has the tags
  \<^verbatim>\<open>["a","b","c"]\<close>, the metadata holds the one string \<^verbatim>\<open>a,b,c\<close> under \<^verbatim>\<open>tags\<close>
  (and for any list of strings, the strings joined by commas); when reading the tags of
  the embedded post fails, as it does for a post with no \<^verbatim>\<open>tags\<close> field, the metadata
  has no key \<^verbatim>\<open>tags\<close> at all.
\<close>

theorem metadata_tags:
  assumes "\<not> in_str ''Not Found'' page" and "retrieve_page_data L page = Inr pd"
  shows "(post_attribute pd ''tags'' = Inr (PList [PStr ''a'', PStr ''b'', PStr ''c'']) \<longrightarrow>
            (\<exists>m. metadata L self page = Inr m \<and> map_of m ''tags'' = Some (PStr ''a,b,c'')))
       \<and> (\<forall>ts. post_attribute pd ''tags'' = Inr (PList (map PStr ts)) \<longrightarrow>
            (\<exists>m. metadata L self page = Inr m \<and> map_of m ''tags'' = Some (PStr (join_strs '','' ts))))
       \<and> (\<forall>e. post_attribute pd ''tags'' = Inl e \<longrightarrow>
            (\<exists>m. metadata L self page = Inr m \<and> map_of m ''tags'' = None))"
proof -
  let ?m0 = "fold (copy_attribute pd) attributes [(''gallery_id'', PStr (gallery_id self))]"
  have m: "metadata L self page = Inr (copy_tags pd ?m0)"
    using assms by (rule metadata_decoded)
  have general: "map_of (copy_tags pd ?m0) ''tags'' = Some (PStr (join_strs '','' ts))"
    if "post_attribute pd ''tags'' = Inr (PList (map PStr ts))" for ts
    using that by (simp add: copy_tags_def str_join_list update_conv')
  have "map_of (copy_tags pd ?m0) ''tags'' = Some (PStr (join_strs '','' [''a'', ''b'', ''c'']))"
    if "post_attribute pd ''tags'' = Inr (PList [PStr ''a'', PStr ''b'', PStr ''c''])"
    using general [of "[''a'', ''b'', ''c'']"] that by simp
  then have abc: "map_of (copy_tags pd ?m0) ''tags'' = Some (PStr ''a,b,c'')"
    if "post_attribute pd ''tags'' = Inr (PList [PStr ''a'', PStr ''b'', PStr ''c''])"
    using that by simp
  have absent: "map_of (copy_tags pd ?m0) ''tags'' = None"
    if "post_attribute pd ''tags'' = Inl e" for e
    using that by (simp add: copy_tags_def map_of_fold_copy_attribute tags_not_attribute)
  show ?thesis
    using m abc general absent by simp
qed

text \<open>
  The post of \<^verbatim>\<open>page_tags\<close> has the tags \<^verbatim>\<open>["a","b","c"]\<close>; the post of
  \<^verbatim>\<open>page_untagged\<close> has no \<^verbatim>\<open>tags\<close> field.
\<close>

theorem metadata_tags_witness:
  "\<not> in_str ''Not Found'' page_tags
   \<and> (\<exists>pd. retrieve_page_data sample_library page_tags = Inr pd
        \<and> post_attribute pd ''tags'' = Inr (PList [PStr ''a'', PStr ''b'', PStr ''c'']))
   \<and> (\<exists>m. metadata sample_library (init ''abcdefghijk'') page_tags = Inr m
        \<and> map_of m ''tags'' = Some (PStr ''a,b,c''))
   \<and> \<not> in_str ''Not Found'' page_untagged
   \<and> (\<exists>pd. retrieve_page_data sample_library page_untagged = Inr pd
        \<and> post_attribute pd ''tags'' = Inl (KeyError ''tags''))
   \<and> (\<exists>m. metadata sample_library (init ''abcdefghijk'') page_untagged = Inr m
        \<and> map_of m ''tags'' = None)"
proof -
  let ?pd1 = "PDict [(''props'', PDict [(''post'',
      PDict [(''id'', PStr ''abcdefghijk''), (''tags'', PList [PStr ''a'', PStr ''b'', PStr ''c''])])])]"
  let ?pd2 = "PDict [(''props'', PDict [(''post'', PDict [(''id'', PStr ''abcdefghijk'')])])]"
  have nf1: "\<not> in_str ''Not Found'' page_tags"
    by code_simp
  have nf2: "\<not> in_str ''Not Found'' page_untagged"
    by code_simp
  have pd1: "retrieve_page_data sample_library page_tags = Inr ?pd1"
    by code_simp
  have pd2: "retrieve_page_data sample_library page_untagged = Inr ?pd2"
    by code_simp
  have a1: "post_attribute ?pd1 ''tags'' = Inr (PList [PStr ''a'', PStr ''b'', PStr ''c''])"
    by (simp add: post_attribute_def)
  have a2: "post_attribute ?pd2 ''tags'' = Inl (KeyError ''tags'')"
    by (simp add: post_attribute_def)
  have c1: "\<exists>m. metadata sample_library (init ''abcdefghijk'') page_tags = Inr m
        \<and> map_of m ''tags'' = Some (PStr ''a,b,c'')"
    using metadata_tags [OF nf1 pd1, of "init ''abcdefghijk''"] a1 by blast
  have c2: "\<exists>m. metadata sample_library (init ''abcdefghijk'') page_untagged = Inr m
        \<and> map_of m ''tags'' = None"
    using metadata_tags [OF nf2 pd2, of "init ''abcdefghijk''"] a2 by blast
  show ?thesis
    using nf1 nf2 pd1 pd2 a1 a2 c1 c2 by blast
qed

text \<open>
  Claim C9. In API mode, the metadata that \<^verbatim>\<open>_metadata_api\<close> returns for a post of
  the API client's lookup has the key \<^verbatim>\<open>gallery_id\<close>, with the gallery id of the
  extractor, and has no key \<^verbatim>\<open>image_count\<close>, whatever the post held.
\<close>

theorem metadata_api_keys:
  assumes "metadata_api L srv self page w = Some (Inr m, self', w')"
  shows "getitem m ''gallery_id'' = Inr (PStr (gallery_id self))
       \<and> getitem m ''image_count'' = Inl (KeyError ''image_count'')"
proof -
  from assms obtain post0 stash where "prepare_post L (gallery_id self) post0 = Inr (m, stash)"
    by (elim metadata_api_Inr)
  then obtain d date where
    "m = PDict (AList.delete ''images'' (AList.delete ''image_count''
           (AList.update ''gallery_id'' (PStr (gallery_id self))
             (AList.update ''images'' stash (AList.update ''date'' date d)))))"
    by (elim prepare_post_Inr)
  then show ?thesis
    by (simp add: update_conv' delete_conv')
qed

text \<open>
  The post of \<^verbatim>\<open>doc_post\<close> carries an \<^verbatim>\<open>image_count\<close>; the metadata returned
  does not.
\<close>

theorem metadata_api_keys_witness:
  "metadata_api sample_library (always \<lparr>status_code = 200, body = doc_post\<rparr>) sample_extractor [] world0 =
     Some (Inr (PDict [(''created'', PStr ''c0''), (''date'', PDatetime ''c0''),
                       (''gallery_id'', PStr ''abcdefghijk'')]),
       sample_extractor\<lparr>image_list := Some (PList
          [PDict [(''link'', PStr ''u1''), (''created'', PStr ''c1''), (''date'', PDatetime ''c1'')],
           PDict [(''link'', PStr ''u2''), (''created'', PStr ''c2''), (''date'', PDatetime ''c2'')]])\<rparr>,
       \<lparr>served = 1, trace =
          [Request (api_request (api_init ''token'') ''https://api.imgchest.com/v1/post/abcdefghijk''),
           Decode doc_post]\<rparr>)
   \<and> getitem (PDict [(''created'', PStr ''c0''), (''date'', PDatetime ''c0''),
                     (''gallery_id'', PStr ''abcdefghijk'')]) ''gallery_id''
        = Inr (PStr (gallery_id sample_extractor))
   \<and> getitem (PDict [(''created'', PStr ''c0''), (''date'', PDatetime ''c0''),
                     (''gallery_id'', PStr ''abcdefghijk'')]) ''image_count''
        = Inl (KeyError ''image_count'')"
proof -
  have run: "metadata_api sample_library (always \<lparr>status_code = 200, body = doc_post\<rparr>) sample_extractor [] world0 =
     Some (Inr (PDict [(''created'', PStr ''c0''), (''date'', PDatetime ''c0''),
                       (''gallery_id'', PStr ''abcdefghijk'')]),
       sample_extractor\<lparr>image_list := Some (PList
          [PDict [(''link'', PStr ''u1''), (''created'', PStr ''c1''), (''date'', PDatetime ''c1'')],
           PDict [(''link'', PStr ''u2''), (''created'', PStr ''c2''), (''date'', PDatetime ''c2'')]])\<rparr>,
       \<lparr>served = 1, trace =
          [Request (api_request (api_init ''token'') ''https://api.imgchest.com/v1/post/abcdefghijk''),
           Decode doc_post]\<rparr>)"
    by code_simp
  show ?thesis
    using run metadata_api_keys [OF run] by simp
qed

text \<open>
  Claim C10. On an extractor as constructed, in API mode or not, \<^verbatim>\<open>_images_api\<close>
  fails: the attribute \<^verbatim>\<open>_image_list\<close> does not exist. It still fails after a
  \<^verbatim>\<open>_metadata_api\<close> that raised: only a \<^verbatim>\<open>_metadata_api\<close> that completed sets the
  attribute.
\<close>

theorem images_api_needs_metadata_api:
  "images_api (init_config access_token (init gid)) page = Inl (AttributeError ''_image_list'')
   \<and> (\<forall>e self' w'. metadata_api L srv (init_config access_token (init gid)) page w
           = Some (Inl e, self', w') \<longrightarrow>
         images_api self' page = Inl (AttributeError ''_image_list''))"
proof -
  have fresh: "image_list (init_config access_token (init gid)) = None"
    by (simp add: init_config_def init_def split: option.splits)
  then have "images_api (init_config access_token (init gid)) page = Inl (AttributeError ''_image_list'')"
    by (simp add: images_api_def)
  then show ?thesis
    using metadata_api_Inl [of L srv "init_config access_token (init gid)" page w] by auto
qed

text \<open>
  A lookup that is answered with a redirect raises, and leaves the extractor as it was.
\<close>

theorem images_api_needs_metadata_api_witness:
  "images_api sample_extractor [] = Inl (AttributeError ''_image_list'')
   \<and> metadata_api sample_library (always \<lparr>status_code = 302, body = []\<rparr>) sample_extractor [] world0 =
       Some (Inl (AuthenticationError ''Invalid API access token''), sample_extractor,
         \<lparr>served = 1, trace =
          [Request (api_request (api_init ''token'') ''https://api.imgchest.com/v1/post/abcdefghijk'')]\<rparr>)"
proof -
  have run: "metadata_api sample_library (always \<lparr>status_code = 302, body = []\<rparr>)
       (init_config (Some ''token'') (init ''abcdefghijk'')) [] world0 =
       Some (Inl (AuthenticationError ''Invalid API access token''),
         init_config (Some ''token'') (init ''abcdefghijk''),
         \<lparr>served = 1, trace =
          [Request (api_request (api_init ''token'') ''https://api.imgchest.com/v1/post/abcdefghijk'')]\<rparr>)"
    by code_simp
  have "images_api (init_config (Some ''token'') (init ''abcdefghijk'')) [] = Inl (AttributeError ''_image_list'')"
    using images_api_needs_metadata_api [of "Some ''token''" "''abcdefghijk''" "[]" sample_library
        "always \<lparr>status_code = 302, body = []\<rparr>" world0] run
    by blast
  with run show ?thesis
    by (simp add: sample_extractor_def)
qed

end
